theory Spec2Isabelle
  imports Complex_Main
begin

section \<open>JavaScript values used by the dashboard client\<close>

text \<open>
  A JavaScript \<^verbatim>\<open>number\<close> as the client code sees it: a real value or \<^verbatim>\<open>NaN\<close>.
  Rounding of doubles plays no part in the properties below, so the numeric
  values are reals. An optional parameter, a missing property and a JSON
  \<^verbatim>\<open>null\<close> are \<open>None\<close>.
\<close>

datatype jsnum = Num real | NaN

text \<open>
  Truthiness of \<^verbatim>\<open>number | undefined\<close>, as tested by \<^verbatim>\<open>if (hedgeRatio)\<close>:
  \<^verbatim>\<open>undefined\<close>, \<^verbatim>\<open>NaN\<close> and zero are falsy, every other number is truthy.
\<close>

fun truthy :: "jsnum option \<Rightarrow> bool" where
  "truthy None = False"
| "truthy (Some NaN) = False"
| "truthy (Some (Num x)) = (x \<noteq> 0)"

section \<open>The API client: \<^verbatim>\<open>apiClient.getSpread\<close>\<close>

text \<open>
  \<^verbatim>\<open>
  getSpread: async (symbol1, symbol2, timeframe = '1m', hedgeRatio?: number) => {
    const params: any = { symbol1, symbol2, timeframe };
    if (hedgeRatio) params.hedge_ratio = hedgeRatio;
    const response = await api.get('/analytics/spread', { params });
    return response.data.data as SpreadData[];
  }
  \<close>
  The request that is issued is the observable effect: its path and its query
  parameters. A parameter that is not set is \<open>None\<close>.
\<close>

record spread_params =
  p_symbol1 :: string
  p_symbol2 :: string
  p_timeframe :: string
  p_hedge_ratio :: "jsnum option"

record spread_request =
  req_path :: string
  req_params :: spread_params

definition getSpread :: "string \<Rightarrow> string \<Rightarrow> string option \<Rightarrow> jsnum option \<Rightarrow> spread_request" where
  "getSpread symbol1 symbol2 timeframe hedgeRatio =
     (let tf = (case timeframe of None \<Rightarrow> ''1m'' | Some t \<Rightarrow> t);
          params = \<lparr>p_symbol1 = symbol1, p_symbol2 = symbol2, p_timeframe = tf,
                    p_hedge_ratio = None\<rparr>;
          params' = (if truthy hedgeRatio then params\<lparr>p_hedge_ratio := hedgeRatio\<rparr>
                     else params)
      in \<lparr>req_path = ''/analytics/spread'', req_params = params'\<rparr>)"

section \<open>The dashboard page: \<^verbatim>\<open>Home.fetchHedgeRatio\<close>\<close>

text \<open>
  \<^verbatim>\<open>
  const [hedgeRatio, setHedgeRatio] = useState<number | undefined>(undefined);
  ...
  const fetchHedgeRatio = async () => {
    try {
      const result = await apiClient.getHedgeRatio(...);
      if (result.hedge_ratio) { setHedgeRatio(result.hedge_ratio); }
    } catch (error) { console.error(...); }
  };
  \<close>
  A response is either a thrown error or the \<^verbatim>\<open>hedge_ratio\<close> property of the
  result. The function takes the stored \<^verbatim>\<open>hedgeRatio\<close> and returns the new one.
\<close>

datatype fetch_error = RequestFailed

definition fetchHedgeRatio :: "fetch_error + jsnum option \<Rightarrow> jsnum option \<Rightarrow> jsnum option" where
  "fetchHedgeRatio response hedgeRatio =
     (case response of
        Inl e \<Rightarrow> hedgeRatio
      | Inr result_hedge_ratio \<Rightarrow>
          if truthy result_hedge_ratio then result_hedge_ratio else hedgeRatio)"

text \<open>
  The stored hedge ratio after a sequence of responses, starting from the
  initial \<^verbatim>\<open>useState(undefined)\<close>, and the spread request the
  \<^verbatim>\<open>SpreadChart\<close> then issues with it.
\<close>

definition Home_hedgeRatio :: "(fetch_error + jsnum option) list \<Rightarrow> jsnum option" where
  "Home_hedgeRatio responses = foldl (\<lambda>h r. fetchHedgeRatio r h) None responses"

definition SpreadChart_request ::
  "string \<Rightarrow> string \<Rightarrow> string \<Rightarrow> (fetch_error + jsnum option) list \<Rightarrow> spread_request" where
  "SpreadChart_request symbol1 symbol2 timeframe responses =
     getSpread symbol1 symbol2 (Some timeframe) (Home_hedgeRatio responses)"

section \<open>The correlation heatmap: \<^verbatim>\<open>CorrelationHeatmap\<close>\<close>

text \<open>
  The matrix the engine returns is parsed JSON of type
  \<^verbatim>\<open>Record<string, Record<string, number>>\<close>. An object is the list of its
  members as the JSON text has them; a member holds a number or \<^verbatim>\<open>null\<close>, and
  a row may itself be \<^verbatim>\<open>null\<close>.
\<close>

type_synonym corr_row = "(string \<times> real option) list"
type_synonym corr_matrix = "(string \<times> corr_row option) list"

text \<open>
  The own properties of the parsed object. When the text repeats a key,
  \<^verbatim>\<open>JSON.parse\<close> keeps the last value at the position of the first
  occurrence.
\<close>

definition own :: "(string \<times> 'v) list \<Rightarrow> string \<Rightarrow> 'v option" where
  "own obj key = map_of (rev obj) key"

definition own_keys :: "(string \<times> 'v) list \<Rightarrow> string list" where
  "own_keys obj = rev (remdups (rev (map fst obj)))"

text \<open>
  \<^verbatim>\<open>Object.keys\<close> lists the keys that are array indices first, in ascending
  numeric order, and then the other keys in the order of their creation. An
  array index is a decimal numeral without a leading zero whose value is
  below \<open>2\<^sup>3\<^sup>2 - 1\<close>.
\<close>

definition is_digit :: "char \<Rightarrow> bool" where
  "is_digit c = (48 \<le> (of_char c :: nat) \<and> (of_char c :: nat) \<le> 57)"

definition digits_value :: "string \<Rightarrow> nat" where
  "digits_value s = foldl (\<lambda>n c. 10 * n + ((of_char c :: nat) - 48)) 0 s"

definition is_array_index :: "string \<Rightarrow> bool" where
  "is_array_index s =
     (s \<noteq> [] \<and> list_all is_digit s \<and> (length s = 1 \<or> hd s \<noteq> CHR ''0'')
      \<and> digits_value s < 2 ^ 32 - 1)"

definition Object_keys :: "(string \<times> 'v) list \<Rightarrow> string list" where
  "Object_keys obj =
     (let keys = own_keys obj
      in sort_key digits_value (filter is_array_index keys)
         @ filter (\<lambda>k. \<not> is_array_index k) keys)"

text \<open>
  A property that is not an own property of a row is looked up in
  \<^verbatim>\<open>Object.prototype\<close>, whose properties are these; each of them is a function
  or an object, never a number and never nullish.
\<close>

definition Object_prototype_names :: "string list" where
  "Object_prototype_names =
     [''constructor'', ''__defineGetter__'', ''__defineSetter__'', ''hasOwnProperty'',
      ''__lookupGetter__'', ''__lookupSetter__'', ''isPrototypeOf'', ''propertyIsEnumerable'',
      ''toString'', ''valueOf'', ''__proto__'', ''toLocaleString'']"

text \<open>
  What \<^verbatim>\<open>data[symbol1]?.[symbol2] ?? 0\<close> evaluates to: a number, or the
  inherited property of that name.
\<close>

datatype jsvalue = Number real | Inherited string

text \<open>
  \<^verbatim>\<open>data[symbol1]?.[symbol2] ?? 0\<close>, as a function of the value of
  \<^verbatim>\<open>data[symbol1]\<close> (\<open>None\<close> when undefined, \<open>Some None\<close> when null) and of
  \<^verbatim>\<open>symbol2\<close>. An undefined or null row short-circuits to \<^verbatim>\<open>undefined\<close>; a
  null cell and a cell found nowhere are nullish; \<^verbatim>\<open>??\<close> replaces a nullish
  value by 0 and leaves every other value, an inherited one too.
\<close>

definition cell :: "corr_row option option \<Rightarrow> string \<Rightarrow> jsvalue" where
  "cell data_symbol1 symbol2 =
     (case data_symbol1 of
        None \<Rightarrow> Number 0
      | Some None \<Rightarrow> Number 0
      | Some (Some row) \<Rightarrow>
          (case own row symbol2 of
             Some (Some v) \<Rightarrow> Number v
           | Some None \<Rightarrow> Number 0
           | None \<Rightarrow>
               if symbol2 \<in> set Object_prototype_names then Inherited symbol2 else Number 0))"

text \<open>
  \<^verbatim>\<open>
  const matrixData: number[][] = [];
  const labels = Object.keys(data);
  for (const symbol1 of labels) {
    const row: number[] = [];
    for (const symbol2 of labels) { row.push(data[symbol1]?.[symbol2] ?? 0); }
    matrixData.push(row);
  }
  \<close>
  Every \<^verbatim>\<open>symbol1\<close> is a key of \<^verbatim>\<open>data\<close>, so \<^verbatim>\<open>data[symbol1]\<close> is its own
  property.
\<close>

definition labels :: "corr_matrix \<Rightarrow> string list" where
  "labels data = Object_keys data"

definition matrixData :: "corr_matrix \<Rightarrow> jsvalue list list" where
  "matrixData data =
     map (\<lambda>symbol1. map (\<lambda>symbol2. cell (own data symbol1) symbol2) (labels data)) (labels data)"

text \<open>
  \<^verbatim>\<open>val.toFixed(3)\<close>: the formatting of a number is the parameter
  \<open>toFixed3\<close>; a value that is not a number has no such method, and the call
  throws a \<^verbatim>\<open>TypeError\<close>.
\<close>

datatype render_error = TypeError

fun toFixed :: "(real \<Rightarrow> string) \<Rightarrow> jsvalue \<Rightarrow> render_error + string" where
  "toFixed toFixed3 (Number x) = Inr (toFixed3 x)"
| "toFixed toFixed3 (Inherited name) = Inl TypeError"

text \<open>\<^verbatim>\<open>Array.prototype.map\<close> with a callback that may throw: the first throw ends it.\<close>

fun all_ok :: "('e + 'a) list \<Rightarrow> 'e + 'a list" where
  "all_ok [] = Inr []"
| "all_ok (x # xs) =
     (case x of
        Inl e \<Rightarrow> Inl e
      | Inr v \<Rightarrow> (case all_ok xs of Inl e \<Rightarrow> Inl e | Inr vs \<Rightarrow> Inr (v # vs)))"

text \<open>
  What the component returns: the two early returns, or the Plotly heatmap
  with its \<^verbatim>\<open>z\<close>, \<^verbatim>\<open>x\<close>, \<^verbatim>\<open>y\<close> and \<^verbatim>\<open>text\<close>, or the error thrown while
  building the text.
  \<^verbatim>\<open>
  if (loading) { return <div ...>Loading...</div>; }
  if (Object.keys(data).length === 0) { return <div ...>No data available</div>; }
  ...
  z: matrixData, x: labels, y: labels,
  text: matrixData.map((row) => row.map((val) => val.toFixed(3))),
  \<close>
\<close>

record heatmap =
  hm_z :: "jsvalue list list"
  hm_x :: "string list"
  hm_y :: "string list"
  hm_text :: "string list list"

datatype view = Loading | NoData | Plot heatmap

definition CorrelationHeatmap ::
  "(real \<Rightarrow> string) \<Rightarrow> bool \<Rightarrow> corr_matrix \<Rightarrow> render_error + view" where
  "CorrelationHeatmap toFixed3 loading data =
     (if loading then Inr Loading
      else if length (Object_keys data) = 0 then Inr NoData
      else
        case all_ok (map (\<lambda>row. all_ok (map (toFixed toFixed3) row)) (matrixData data)) of
          Inl e \<Rightarrow> Inl e
        | Inr text \<Rightarrow>
            Inr (Plot \<lparr>hm_z = matrixData data, hm_x = labels data, hm_y = labels data,
                       hm_text = text\<rparr>))"

text \<open>
  The same matrix with every null cell replaced by the number 0: what the
  engine would send if each insufficient-data pair were a true correlation of
  exactly 0.
\<close>

definition nulls_as_zero :: "corr_matrix \<Rightarrow> corr_matrix" where
  "nulls_as_zero data =
     map (\<lambda>(symbol, row).
            (symbol, map_option (map (\<lambda>(symbol2, v). (symbol2, Some (case v of None \<Rightarrow> 0 | Some x \<Rightarrow> x)))) row))
         data"

text \<open>
  The dashboard upper-cases every symbol it asks for
  (\<^verbatim>\<open>s.trim().toUpperCase()\<close> in \<^verbatim>\<open>Home\<close>), so a symbol holds no lower-case
  letter.
\<close>

definition lower_case_letter :: "char \<Rightarrow> bool" where
  "lower_case_letter c = (97 \<le> (of_char c :: nat) \<and> (of_char c :: nat) \<le> 122)"

text \<open>
  A matrix of the three default symbols with a null cell, a missing cell and a
  null row, and a formatter for its values.
\<close>

definition example_matrix :: corr_matrix where
  "example_matrix =
     [(''BTCUSDT'', Some [(''BTCUSDT'', Some 1), (''ETHUSDT'', Some 0.5), (''BNBUSDT'', None)]),
      (''ETHUSDT'', Some [(''BTCUSDT'', Some 0.5), (''ETHUSDT'', Some 1)]),
      (''BNBUSDT'', None)]"

definition example_format :: "real \<Rightarrow> string" where
  "example_format x = (if x = 0 then ''0.000'' else if x = 1 then ''1.000'' else ''0.500'')"

section \<open>The WebSocket hook: \<^verbatim>\<open>useWebSocket\<close>\<close>

text \<open>
  \<^verbatim>\<open>
  const maxReconnectAttempts = 10;
  const baseReconnectDelay = 1000;
  const maxReconnectDelay = 30000;
  const getReconnectDelay = (attempts: number): number => {
    const delay = Math.min(baseReconnectDelay * Math.pow(2, attempts), maxReconnectDelay);
    return delay;
  };
  \<close>
\<close>

definition maxReconnectAttempts :: nat where
  "maxReconnectAttempts = 10"

definition baseReconnectDelay :: nat where
  "baseReconnectDelay = 1000"

definition maxReconnectDelay :: nat where
  "maxReconnectDelay = 30000"

definition getReconnectDelay :: "nat \<Rightarrow> nat" where
  "getReconnectDelay attempts = min (baseReconnectDelay * 2 ^ attempts) maxReconnectDelay"

text \<open>
  The state the hook's closures share. Every \<^verbatim>\<open>WebSocket\<close> the hook has
  created is an entry of \<open>sockets\<close> holding its \<^verbatim>\<open>readyState\<close>, and
  \<^verbatim>\<open>wsRef.current\<close> is the index of one of them or \<^verbatim>\<open>null\<close>. Every
  \<^verbatim>\<open>setTimeout\<close> is an entry of \<open>timers\<close> with the callback it will run,
  its delay in milliseconds and whether it is still pending;
  \<^verbatim>\<open>reconnectTimeoutRef.current\<close> is the index of the last one set.
  \<^verbatim>\<open>latestData\<close> and the message handler are left out: they touch none of
  the fields below.
\<close>

datatype readyState = CONNECTING | OPEN | CLOSING | CLOSED

datatype timer_callback = AfterClose | AfterThrow

record timer =
  callback :: timer_callback
  delay :: nat
  pending :: bool

record hook =
  isMounted :: bool
  shouldReconnect :: bool
  isConnected :: bool
  reconnectAttempts :: nat
  wsRef :: "nat option"
  reconnectTimeoutRef :: "nat option"
  sockets :: "readyState list"
  timers :: "timer list"

definition setTimeout :: "timer_callback \<Rightarrow> nat \<Rightarrow> hook \<Rightarrow> hook" where
  "setTimeout cb ms s =
     s\<lparr>timers := timers s @ [\<lparr>callback = cb, delay = ms, pending = True\<rparr>],
       reconnectTimeoutRef := Some (length (timers s))\<rparr>"

text \<open>
  \<^verbatim>\<open>ws.close()\<close>: a socket that is not yet closed starts closing; on a closing
  or closed socket the call does nothing.
\<close>

definition close_socket :: "nat \<Rightarrow> hook \<Rightarrow> hook" where
  "close_socket i s =
     (if i < length (sockets s) \<and> sockets s ! i \<noteq> CLOSED \<and> sockets s ! i \<noteq> CLOSING
      then s\<lparr>sockets := (sockets s)[i := CLOSING]\<rparr> else s)"

definition is_closed :: "nat \<Rightarrow> hook \<Rightarrow> bool" where
  "is_closed i s = (i < length (sockets s) \<and> sockets s ! i = CLOSED)"

text \<open>
  \<^verbatim>\<open>connect\<close>. The argument \<open>throws\<close> says whether \<^verbatim>\<open>new WebSocket(WS_URL)\<close>
  throws (the one statement of the \<^verbatim>\<open>try\<close> block that can): then the
  \<^verbatim>\<open>catch\<close> block runs, with \<^verbatim>\<open>wsRef.current\<close> already reset.
  \<^verbatim>\<open>
  const connect = () => {
    if (!isMounted || !shouldReconnect) return;
    if (reconnectAttemptsRef.current >= maxReconnectAttempts) { console.error(...); return; }
    try {
      if (wsRef.current) {
        if (wsRef.current.readyState !== WebSocket.CLOSED) { wsRef.current.close(); }
        wsRef.current = null;
      }
      const ws = new WebSocket(WS_URL);
      wsRef.current = ws;
      ws.onopen = ...; ws.onmessage = ...; ws.onerror = ...; ws.onclose = ...;
    } catch (error) {
      setIsConnected(false);
      if (isMounted && shouldReconnect) {
        reconnectAttemptsRef.current += 1;
        if (reconnectAttemptsRef.current < maxReconnectAttempts) {
          const delay = getReconnectDelay(reconnectAttemptsRef.current - 1);
          reconnectTimeoutRef.current = window.setTimeout(() => {
            if (isMounted && shouldReconnect) connect();
          }, delay);
        }
      }
    }
  };
  \<close>
\<close>

definition connect :: "bool \<Rightarrow> hook \<Rightarrow> hook" where
  "connect throws s =
     (if \<not> isMounted s \<or> \<not> shouldReconnect s then s
      else if reconnectAttempts s \<ge> maxReconnectAttempts then s
      else
        let s1 = (case wsRef s of
                    None \<Rightarrow> s
                  | Some i \<Rightarrow> (if \<not> is_closed i s then close_socket i s else s)\<lparr>wsRef := None\<rparr>)
        in if \<not> throws
           then s1\<lparr>sockets := sockets s1 @ [CONNECTING], wsRef := Some (length (sockets s1))\<rparr>
           else
             let s2 = s1\<lparr>isConnected := False\<rparr> in
             if isMounted s2 \<and> shouldReconnect s2 then
               let s3 = s2\<lparr>reconnectAttempts := reconnectAttempts s2 + 1\<rparr> in
               if reconnectAttempts s3 < maxReconnectAttempts
               then setTimeout AfterThrow (getReconnectDelay (reconnectAttempts s3 - 1)) s3
               else s3
             else s2)"

text \<open>
  \<^verbatim>\<open>
  ws.onopen = () => {
    if (!isMounted) { ws.close(); return; }
    setIsConnected(true);
    reconnectAttemptsRef.current = 0;
  };
  ws.onerror = (error) => { if (!isMounted) return; setIsConnected(false); };
  \<close>
\<close>

definition onopen :: "nat \<Rightarrow> hook \<Rightarrow> hook" where
  "onopen ws s =
     (if \<not> isMounted s then close_socket ws s
      else s\<lparr>isConnected := True, reconnectAttempts := 0\<rparr>)"

definition onerror :: "hook \<Rightarrow> hook" where
  "onerror s = (if \<not> isMounted s then s else s\<lparr>isConnected := False\<rparr>)"

text \<open>
  \<^verbatim>\<open>
  ws.onclose = (event) => {
    if (!isMounted) return;
    setIsConnected(false);
    if (event.code !== 1000 && isMounted && shouldReconnect &&
        reconnectAttemptsRef.current < maxReconnectAttempts) {
      reconnectAttemptsRef.current += 1;
      const delay = getReconnectDelay(reconnectAttemptsRef.current - 1);
      reconnectTimeoutRef.current = window.setTimeout(() => {
        if (isMounted && shouldReconnect &&
            (!wsRef.current || wsRef.current.readyState === WebSocket.CLOSED)) { connect(); }
      }, delay);
    } else if (reconnectAttemptsRef.current >= maxReconnectAttempts) { console.error(...); }
  };
  \<close>
\<close>

definition onclose :: "nat \<Rightarrow> hook \<Rightarrow> hook" where
  "onclose code s =
     (if \<not> isMounted s then s
      else
        let s1 = s\<lparr>isConnected := False\<rparr> in
        if code \<noteq> 1000 \<and> isMounted s1 \<and> shouldReconnect s1
           \<and> reconnectAttempts s1 < maxReconnectAttempts
        then
          let s2 = s1\<lparr>reconnectAttempts := reconnectAttempts s1 + 1\<rparr> in
          setTimeout AfterClose (getReconnectDelay (reconnectAttempts s2 - 1)) s2
        else s1)"

text \<open>The two timer callbacks, set by \<^verbatim>\<open>onclose\<close> and by the \<^verbatim>\<open>catch\<close> block.\<close>

fun run_callback :: "timer_callback \<Rightarrow> bool \<Rightarrow> hook \<Rightarrow> hook" where
  "run_callback AfterClose throws s =
     (if isMounted s \<and> shouldReconnect s
         \<and> (case wsRef s of None \<Rightarrow> True | Some i \<Rightarrow> is_closed i s)
      then connect throws s else s)"
| "run_callback AfterThrow throws s =
     (if isMounted s \<and> shouldReconnect s then connect throws s else s)"

text \<open>
  The effect's cleanup.
  \<^verbatim>\<open>
  return () => {
    isMounted = false;
    shouldReconnect = false;
    if (reconnectTimeoutRef.current) { clearTimeout(reconnectTimeoutRef.current); }
    if (wsRef.current) {
      wsRef.current.onclose = null;
      wsRef.current.close(1000, 'Component unmounting');
      wsRef.current = null;
    }
  };
  \<close>
  Removing the \<^verbatim>\<open>onclose\<close> handler changes nothing in the state: with
  \<^verbatim>\<open>isMounted\<close> false the handler returns at once.
\<close>

definition clearTimeout :: "nat \<Rightarrow> hook \<Rightarrow> hook" where
  "clearTimeout k s =
     (if k < length (timers s) then s\<lparr>timers := (timers s)[k := (timers s ! k)\<lparr>pending := False\<rparr>]\<rparr>
      else s)"

definition cleanup :: "hook \<Rightarrow> hook" where
  "cleanup s =
     (let s1 = s\<lparr>isMounted := False, shouldReconnect := False\<rparr>;
          s2 = (case reconnectTimeoutRef s1 of None \<Rightarrow> s1 | Some k \<Rightarrow> clearTimeout k s1)
      in case wsRef s2 of
           None \<Rightarrow> s2
         | Some i \<Rightarrow> (close_socket i s2)\<lparr>wsRef := None\<rparr>)"

text \<open>
  What the browser and React can do to the hook. A socket that is connecting
  may open; a socket that is not closed may close, with a close code; a
  pending timer may fire, and the \<^verbatim>\<open>connect\<close> it runs may find the constructor
  throwing; the component may unmount. The browser sets \<^verbatim>\<open>readyState\<close> before
  it calls the handler. An event that cannot happen in the state leaves it
  unchanged.
\<close>

datatype event =
    OnOpen nat
  | OnError nat
  | OnClose nat nat
  | TimerFires nat bool
  | Unmount

fun fire :: "event \<Rightarrow> hook \<Rightarrow> hook" where
  "fire (OnOpen i) s =
     (if i < length (sockets s) \<and> sockets s ! i = CONNECTING
      then onopen i (s\<lparr>sockets := (sockets s)[i := OPEN]\<rparr>) else s)"
| "fire (OnError i) s =
     (if i < length (sockets s) then onerror s else s)"
| "fire (OnClose i code) s =
     (if i < length (sockets s) \<and> sockets s ! i \<noteq> CLOSED
      then onclose code (s\<lparr>sockets := (sockets s)[i := CLOSED]\<rparr>) else s)"
| "fire (TimerFires k throws) s =
     (if k < length (timers s) \<and> pending (timers s ! k)
      then run_callback (callback (timers s ! k)) throws (clearTimeout k s) else s)"
| "fire Unmount s = (if isMounted s then cleanup s else s)"

text \<open>
  The state when the effect starts, the state after its first \<^verbatim>\<open>connect()\<close>,
  and a run of events.
\<close>

definition initial :: hook where
  "initial = \<lparr>isMounted = True, shouldReconnect = True, isConnected = False,
              reconnectAttempts = 0, wsRef = None, reconnectTimeoutRef = None,
              sockets = [], timers = []\<rparr>"

definition mount :: "bool \<Rightarrow> hook" where
  "mount throws = connect throws initial"

definition run :: "hook \<Rightarrow> event list \<Rightarrow> hook" where
  "run s es = foldl (\<lambda>s e. fire e s) s es"

text \<open>
  The number of sockets that are not closed and the number of timers still
  pending. The hook keeps at most one of the two kinds alive at a time, and
  no socket alive once the counter has reached the maximum.
\<close>

definition live_sockets :: "hook \<Rightarrow> nat" where
  "live_sockets s = length (filter (\<lambda>r. r \<noteq> CLOSED) (sockets s))"

definition pending_timers :: "hook \<Rightarrow> nat" where
  "pending_timers s = length (filter pending (timers s))"

definition one_at_a_time :: "hook \<Rightarrow> bool" where
  "one_at_a_time s =
     (live_sockets s + pending_timers s \<le> 1
      \<and> (reconnectAttempts s < maxReconnectAttempts \<or> live_sockets s = 0))"

text \<open>
  Every socket that is connecting or open is the one \<^verbatim>\<open>wsRef.current\<close> holds,
  in a mounted hook.
\<close>

definition connected_is_current :: "hook \<Rightarrow> bool" where
  "connected_is_current s =
     list_all (\<lambda>i. sockets s ! i = CLOSING \<or> sockets s ! i = CLOSED \<or> (wsRef s = Some i \<and> isMounted s))
       [0..<length (sockets s)]"

text \<open>
  A hook that has given up: the attempt counter has reached the maximum and
  no socket is left that could still open or close. The event list is ten
  connection attempts in a row that each end in an abnormal close (code 1006),
  followed by the reconnect timer.
\<close>

definition stopped :: "hook \<Rightarrow> bool" where
  "stopped s =
     (maxReconnectAttempts \<le> reconnectAttempts s \<and> list_all (\<lambda>r. r = CLOSED) (sockets s))"

definition ten_failed_attempts :: "event list" where
  "ten_failed_attempts = concat (map (\<lambda>i. [OnClose i 1006, TimerFires i False]) [0..<10])"

section \<open>The statistics widget: \<^verbatim>\<open>StatsWidget\<close>\<close>

text \<open>
  The \<^verbatim>\<open>PriceStats\<close> object as it arrives from \<^verbatim>\<open>/analytics/price-stats\<close>:
  parsed JSON, in which every field may be \<^verbatim>\<open>null\<close> or missing whatever the
  interface declares, which is why the widget reads each field through
  \<^verbatim>\<open>??\<close>.
  \<^verbatim>\<open>
  // Safe access with fallbacks
  const current = stats.current ?? 0;
  const change = stats.change ?? 0;
  const changePct = stats.change_pct ?? 0;
  const mean = stats.mean ?? 0;
  const std = stats.std ?? 0;
  const min = stats.min ?? 0;
  const max = stats.max ?? 0;
  const median = stats.median ?? 0;
  \<close>
\<close>

record PriceStats =
  ps_mean :: "real option"
  ps_std :: "real option"
  ps_min :: "real option"
  ps_max :: "real option"
  ps_median :: "real option"
  ps_current :: "real option"
  ps_change :: "real option"
  ps_change_pct :: "real option"

definition nullish_or :: "real option \<Rightarrow> real \<Rightarrow> real" where
  "nullish_or v d = (case v of None \<Rightarrow> d | Some x \<Rightarrow> x)"

record widget_values =
  w_current :: real
  w_change :: real
  w_changePct :: real
  w_mean :: real
  w_std :: real
  w_min :: real
  w_max :: real
  w_median :: real

definition StatsWidget :: "PriceStats \<Rightarrow> widget_values" where
  "StatsWidget stats =
     \<lparr>w_current = nullish_or (ps_current stats) 0,
      w_change = nullish_or (ps_change stats) 0,
      w_changePct = nullish_or (ps_change_pct stats) 0,
      w_mean = nullish_or (ps_mean stats) 0,
      w_std = nullish_or (ps_std stats) 0,
      w_min = nullish_or (ps_min stats) 0,
      w_max = nullish_or (ps_max stats) 0,
      w_median = nullish_or (ps_median stats) 0\<rparr>"

section \<open>The analytics engine, from its specification\<close>

text \<open>
  The engine itself (the Python server behind the endpoints the client calls)
  is not among the sources. The definitions of this section follow the
  specification's description of it, sentence by sentence.
\<close>

subsection \<open>Failures\<close>

text \<open>
  Modelled from the spec: the failure taxonomy of the engine, which is not in
  the sources: \<^verbatim>\<open>InsufficientData\<close>, \<^verbatim>\<open>NotFound\<close>, \<^verbatim>\<open>InvalidParameter\<close>
  and \<^verbatim>\<open>DivisionUndefined\<close>.
\<close>

datatype engine_error = InsufficientData | NotFound | InvalidParameter | DivisionUndefined

text \<open>
  Modelled from the spec: a ratio of the engine, which is not in the sources.
  It fails with \<^verbatim>\<open>DivisionUndefined\<close> on a zero denominator.
\<close>

definition ratio :: "real \<Rightarrow> real \<Rightarrow> engine_error + real" where
  "ratio a b = (if b = 0 then Inl DivisionUndefined else Inr (a / b))"

text \<open>
  Modelled from the spec: how a field that is a ratio is reported, in an
  engine that is not in the sources: \<^verbatim>\<open>DivisionUndefined\<close> becomes a null
  field and is not propagated.
\<close>

definition reported :: "engine_error + real \<Rightarrow> real option" where
  "reported r = (case r of Inl e \<Rightarrow> None | Inr v \<Rightarrow> Some v)"

subsection \<open>RollingStats\<close>

text \<open>
  Modelled from the spec: the window of the \<^verbatim>\<open>RollingStats\<close> component, which
  is not in the sources: the most recent \<open>n\<close> points of a series.
\<close>

definition trailing :: "nat \<Rightarrow> real list \<Rightarrow> real list" where
  "trailing n series = drop (length series - n) series"

text \<open>
  Modelled from the spec: the mean of a window in \<^verbatim>\<open>RollingStats\<close>, which
  is not in the sources.
\<close>

definition mean_of :: "real list \<Rightarrow> real" where
  "mean_of xs = sum_list xs / real (length xs)"

text \<open>
  Modelled from the spec: the variance of a window in \<^verbatim>\<open>RollingStats\<close>,
  which is not in the sources. It is the population variance: the spec asks
  for one fixed choice of deviation and for \<open>std = 0\<close> at window 1, which the
  sample deviation does not give.
\<close>

definition variance_of :: "real list \<Rightarrow> real" where
  "variance_of xs = sum_list (map (\<lambda>x. (x - mean_of xs)\<^sup>2) xs) / real (length xs)"

text \<open>
  Modelled from the spec: the standard deviation of a window in
  \<^verbatim>\<open>RollingStats\<close>, which is not in the sources.
\<close>

definition std_of :: "real list \<Rightarrow> real" where
  "std_of xs = sqrt (variance_of xs)"

text \<open>
  Modelled from the spec: the median of a window in \<^verbatim>\<open>RollingStats\<close>, which
  is not in the sources. The median of an even number of values is the mean
  of the two middle ones.
\<close>

definition median_of :: "real list \<Rightarrow> real" where
  "median_of xs =
     (let ys = sort xs; n = length ys
      in if even n then (ys ! (n div 2 - 1) + ys ! (n div 2)) / 2 else ys ! (n div 2))"

text \<open>
  Modelled from the spec: the result of \<^verbatim>\<open>RollingStats\<close>, which is not in the
  sources: mean, std, min, max, median, current, change and change_pct, the
  last one null when it is undefined.
\<close>

record rolling_stats =
  rs_mean :: real
  rs_std :: real
  rs_min :: real
  rs_max :: real
  rs_median :: real
  rs_current :: real
  rs_change :: real
  rs_change_pct :: "real option"

text \<open>
  Modelled from the spec: \<^verbatim>\<open>compute(series, window)\<close> of \<^verbatim>\<open>RollingStats\<close>, which
  is not in the sources. A non-positive window is an \<^verbatim>\<open>InvalidParameter\<close>, a
  series shorter than the window is \<^verbatim>\<open>InsufficientData\<close>; otherwise the
  result has mean, std, min, max and median of the window, \<open>current\<close> its last
  value, \<open>change = current - first-in-window\<close> and
  \<open>change_pct = change / first-in-window\<close>, null when the division is
  undefined.
\<close>

definition compute :: "real list \<Rightarrow> int \<Rightarrow> engine_error + rolling_stats" where
  "compute series window =
     (if window < 1 then Inl InvalidParameter
      else if length series < nat window then Inl InsufficientData
      else
        let w = trailing (nat window) series;
            current = last w;
            first_in_window = hd w;
            change = current - first_in_window
        in Inr \<lparr>rs_mean = mean_of w, rs_std = std_of w, rs_min = Min (set w), rs_max = Max (set w),
                 rs_median = median_of w, rs_current = current, rs_change = change,
                 rs_change_pct = reported (ratio change first_in_window)\<rparr>)"

text \<open>
  Modelled from the spec: the result as the JSON object the client receives
  from an engine that is not in the sources: every field a number, and
  \<open>change_pct\<close> null when undefined.
\<close>

definition to_PriceStats :: "rolling_stats \<Rightarrow> PriceStats" where
  "to_PriceStats r =
     \<lparr>ps_mean = Some (rs_mean r), ps_std = Some (rs_std r), ps_min = Some (rs_min r),
      ps_max = Some (rs_max r), ps_median = Some (rs_median r), ps_current = Some (rs_current r),
      ps_change = Some (rs_change r), ps_change_pct = rs_change_pct r\<rparr>"

subsection \<open>BacktestEngine\<close>

text \<open>
  Modelled from the spec: a point of the z-score series the \<^verbatim>\<open>BacktestEngine\<close>
  (not in the sources) replays: the z-score and the spread it was computed
  from. Time is the index of the point in the series.
\<close>

record zpoint =
  zp_zscore :: real
  zp_spread :: real

text \<open>
  Modelled from the spec: the two directions of a position in the state
  machine \<^verbatim>\<open>Flat -> Long/Short -> Flat\<close> of the \<^verbatim>\<open>BacktestEngine\<close>, which is
  not in the sources.
\<close>

datatype side = Long | Short

text \<open>
  Modelled from the spec: the state of the run of the \<^verbatim>\<open>BacktestEngine\<close>,
  which is not in the sources: flat, or in a position with its side, entry
  time, entry z-score and entry spread.
\<close>

datatype position = Flat | Position side nat real real

text \<open>
  Modelled from the spec: the trade record of the \<^verbatim>\<open>BacktestEngine\<close>, which is
  not in the sources: entry and exit time, entry and exit z-score and the
  profit, with the direction of the trade.
\<close>

record trade =
  tr_side :: side
  tr_entry_time :: nat
  tr_exit_time :: nat
  tr_entry_z :: real
  tr_exit_z :: real
  tr_pnl :: real

text \<open>
  Modelled from the spec: the profit of a trade in the \<^verbatim>\<open>BacktestEngine\<close>
  (not in the sources), from the spread move: a long profits when the spread
  rises, a short when it falls.
\<close>

fun pnl :: "side \<Rightarrow> real \<Rightarrow> real \<Rightarrow> real" where
  "pnl Long entry_spread exit_spread = exit_spread - entry_spread"
| "pnl Short entry_spread exit_spread = entry_spread - exit_spread"

text \<open>
  Modelled from the spec: one step of the single pass of the
  \<^verbatim>\<open>BacktestEngine\<close>, which is not in the sources. While flat, enter long when
  \<open>z \<le> - entry_z\<close> and short when \<open>z \<ge> entry_z\<close>; while in a position, exit
  to flat when \<open>\<bar>z\<bar> \<le> exit_z\<close> and emit the trade of the finished cycle.
\<close>

fun backtest_step ::
  "real \<Rightarrow> real \<Rightarrow> position \<times> trade list \<Rightarrow> nat \<times> zpoint \<Rightarrow> position \<times> trade list" where
  "backtest_step entry_z exit_z (Flat, trades) (t, p) =
     (if zp_zscore p \<le> - entry_z then (Position Long t (zp_zscore p) (zp_spread p), trades)
      else if zp_zscore p \<ge> entry_z then (Position Short t (zp_zscore p) (zp_spread p), trades)
      else (Flat, trades))"
| "backtest_step entry_z exit_z (Position sd t0 z0 s0, trades) (t, p) =
     (if \<bar>zp_zscore p\<bar> \<le> exit_z
      then (Flat, trades @ [\<lparr>tr_side = sd, tr_entry_time = t0, tr_exit_time = t,
                               tr_entry_z = z0, tr_exit_z = zp_zscore p,
                               tr_pnl = pnl sd s0 (zp_spread p)\<rparr>])
      else (Position sd t0 z0 s0, trades))"

text \<open>
  Modelled from the spec: the result of the \<^verbatim>\<open>BacktestEngine\<close>, which is not
  in the sources: the trades in order and the aggregates.
\<close>

record backtest_result =
  br_trades :: "trade list"
  br_total_trades :: nat
  br_total_pnl :: real
  br_winning_trades :: nat
  br_win_rate :: real

text \<open>
  Modelled from the spec: \<^verbatim>\<open>runBacktest\<close> of the \<^verbatim>\<open>BacktestEngine\<close>, which is
  not in the sources: the pass over the series from \<open>Flat\<close>, and the
  aggregates, with a win rate of 0 when there are no trades.
\<close>

definition runBacktest :: "real \<Rightarrow> real \<Rightarrow> zpoint list \<Rightarrow> backtest_result" where
  "runBacktest entry_z exit_z series =
     (let trades = snd (foldl (backtest_step entry_z exit_z) (Flat, []) (enumerate 0 series));
          winning = length (filter (\<lambda>tr. tr_pnl tr > 0) trades)
      in \<lparr>br_trades = trades, br_total_trades = length trades,
          br_total_pnl = sum_list (map tr_pnl trades), br_winning_trades = winning,
          br_win_rate = (if length trades = 0 then 0 else real winning / real (length trades))\<rparr>)"

text \<open>
  The z-score series of the specification's example,
  \<open>[0, 2.5, 2.5, 0.1, -2.5, 0]\<close>, over any six spreads.
\<close>

definition example_series :: "real \<Rightarrow> real \<Rightarrow> real \<Rightarrow> real \<Rightarrow> real \<Rightarrow> real \<Rightarrow> zpoint list" where
  "example_series s0 s1 s2 s3 s4 s5 =
     [\<lparr>zp_zscore = 0, zp_spread = s0\<rparr>, \<lparr>zp_zscore = 2.5, zp_spread = s1\<rparr>,
      \<lparr>zp_zscore = 2.5, zp_spread = s2\<rparr>, \<lparr>zp_zscore = 0.1, zp_spread = s3\<rparr>,
      \<lparr>zp_zscore = - 2.5, zp_spread = s4\<rparr>, \<lparr>zp_zscore = 0, zp_spread = s5\<rparr>]"

section \<open>Properties of the API layer\<close>

lemma getSpread_hedge_ratio:
  "p_hedge_ratio (req_params (getSpread s1 s2 tf h)) = (if truthy h then h else None)"
  by (simp add: getSpread_def Let_def)

lemma truthy_not_zero: "truthy h \<Longrightarrow> h \<noteq> Some (Num 0)"
  by (cases h rule: truthy.cases) simp_all

lemma fetchHedgeRatio_not_zero:
  "h \<noteq> Some (Num 0) \<Longrightarrow> fetchHedgeRatio r h \<noteq> Some (Num 0)"
  by (auto simp: fetchHedgeRatio_def split: sum.splits dest: truthy_not_zero)

lemma foldl_fetch_not_zero:
  "h \<noteq> Some (Num 0) \<Longrightarrow> foldl (\<lambda>h r. fetchHedgeRatio r h) h rs \<noteq> Some (Num 0)"
  by (induction rs arbitrary: h) (simp_all add: fetchHedgeRatio_not_zero)

lemma Home_hedgeRatio_not_zero: "Home_hedgeRatio rs \<noteq> Some (Num 0)"
  unfolding Home_hedgeRatio_def by (rule foldl_fetch_not_zero) simp

text \<open>
  C8. A hedge ratio equal to 0 is never transmitted or retained: \<open>getSpread\<close>
  sets the \<^verbatim>\<open>hedge_ratio\<close> query parameter exactly when the supplied value is
  truthy (so the parameter is never 0), the dashboard replaces the stored
  hedge ratio exactly when the fetched one is truthy (so the stored value is
  never 0, whatever the responses), and for the input 0 the spread request is
  the request issued when no hedge ratio is supplied.
\<close>

theorem C8_zero_hedge_ratio_dropped:
  "p_hedge_ratio (req_params (getSpread s1 s2 tf h)) = (if truthy h then h else None)
   \<and> p_hedge_ratio (req_params (getSpread s1 s2 tf h)) \<noteq> Some (Num 0)
   \<and> fetchHedgeRatio (Inr r) stored = (if truthy r then r else stored)
   \<and> fetchHedgeRatio (Inr (Some (Num 0))) stored = stored
   \<and> Home_hedgeRatio responses \<noteq> Some (Num 0)
   \<and> p_hedge_ratio (req_params (SpreadChart_request s1 s2 t responses)) \<noteq> Some (Num 0)
   \<and> getSpread s1 s2 tf (Some (Num 0)) = getSpread s1 s2 tf None"
proof (intro conjI)
  show "p_hedge_ratio (req_params (getSpread s1 s2 tf h)) = (if truthy h then h else None)"
    by (rule getSpread_hedge_ratio)
  show "p_hedge_ratio (req_params (getSpread s1 s2 tf h)) \<noteq> Some (Num 0)"
    using truthy_not_zero [of h] by (simp add: getSpread_hedge_ratio)
  show "fetchHedgeRatio (Inr r) stored = (if truthy r then r else stored)"
    by (simp add: fetchHedgeRatio_def)
  show "fetchHedgeRatio (Inr (Some (Num 0))) stored = stored"
    by (simp add: fetchHedgeRatio_def)
  show "Home_hedgeRatio responses \<noteq> Some (Num 0)"
    by (rule Home_hedgeRatio_not_zero)
  show "p_hedge_ratio (req_params (SpreadChart_request s1 s2 t responses)) \<noteq> Some (Num 0)"
    using truthy_not_zero [of "Home_hedgeRatio responses"]
    by (simp add: SpreadChart_request_def getSpread_hedge_ratio)
  show "getSpread s1 s2 tf (Some (Num 0)) = getSpread s1 s2 tf None"
    by (simp add: getSpread_def Let_def)
qed

section \<open>Properties of the heatmap\<close>

lemma own_distinct: "distinct (map fst obj) \<Longrightarrow> own obj = map_of obj"
proof -
  assume d: "distinct (map fst obj)"
  then have "distinct (map fst (rev obj))" by (metis distinct_rev rev_map)
  with d have "map_of (rev obj) = map_of obj"
    by (subst map_of_inject_set) simp_all
  then show ?thesis by (simp add: own_def fun_eq_iff)
qed

lemma own_keys_distinct: "distinct (map fst obj) \<Longrightarrow> own_keys obj = map fst obj"
  by (simp add: own_keys_def distinct_remdups_id)

lemma set_own_keys: "set (own_keys obj) = fst ` set obj"
  by (simp add: own_keys_def)

lemma distinct_own_keys: "distinct (own_keys obj)"
  by (simp add: own_keys_def)

lemma set_Object_keys: "set (Object_keys obj) = fst ` set obj"
  by (auto simp: Object_keys_def Let_def set_own_keys)

lemma distinct_Object_keys: "distinct (Object_keys obj)"
  by (auto simp: Object_keys_def Let_def distinct_own_keys)

lemma Object_keys_distinct:
  "distinct (map fst obj) \<Longrightarrow>
   Object_keys obj =
     sort_key digits_value (filter is_array_index (map fst obj))
     @ filter (\<lambda>k. \<not> is_array_index k) (map fst obj)"
  by (simp add: Object_keys_def Let_def own_keys_distinct)

lemma Object_keys_empty: "Object_keys obj = [] \<longleftrightarrow> obj = []"
proof
  assume "Object_keys obj = []"
  then have "fst ` set obj = {}" using set_Object_keys [of obj] by simp
  then show "obj = []" by simp
next
  assume "obj = []"
  then show "Object_keys obj = []" by (simp add: Object_keys_def own_keys_def)
qed

lemma own_None: "own obj key = None \<longleftrightarrow> key \<notin> fst ` set obj"
  by (simp add: own_def map_of_eq_None_iff)

lemma own_mem: "distinct (map fst obj) \<Longrightarrow> (key, v) \<in> set obj \<Longrightarrow> own obj key = Some v"
  by (simp add: own_distinct)

lemma all_ok_toFixed: "all_ok (map (toFixed f \<circ> Number) xs) = Inr (map f xs)"
  by (induction xs) simp_all

lemma all_ok_rows:
  "all_ok (map ((\<lambda>row. all_ok (map (toFixed f) row)) \<circ> map Number) zz) = Inr (map (map f) zz)"
  by (induction zz) (simp_all add: all_ok_toFixed)

lemma all_ok_numbers:
  "all_ok (map (\<lambda>row. all_ok (map (toFixed f) row)) (map (map Number) zz)) = Inr (map (map f) zz)"
  using all_ok_rows [of f zz] by (simp only: map_map)

lemma cell_null:
  "cell None s2 = Number 0" "cell (Some None) s2 = Number 0"
  by (simp_all add: cell_def)

lemma cell_null_cell:
  "distinct (map fst row) \<Longrightarrow> (s2, None) \<in> set row \<Longrightarrow> cell (Some (Some row)) s2 = Number 0"
  by (simp add: cell_def own_mem)

lemma cell_missing:
  "s2 \<notin> fst ` set row \<Longrightarrow> s2 \<notin> set Object_prototype_names \<Longrightarrow>
   cell (Some (Some row)) s2 = Number 0"
  using own_None [of row s2] by (simp add: cell_def)

lemma cell_number:
  "distinct (map fst row) \<Longrightarrow> (s2, Some v) \<in> set row \<Longrightarrow> cell (Some (Some row)) s2 = Number v"
  by (simp add: cell_def own_mem)

lemma cell_shown:
  assumes "distinct (map fst data)"
    and "\<forall>s r. (s, Some r) \<in> set data \<longrightarrow> distinct (map fst r)"
    and "s2 \<notin> set Object_prototype_names"
  shows "cell (own data s1) s2 =
     Number (case map_of data s1 of
               Some (Some row) \<Rightarrow> (case map_of row s2 of Some (Some v) \<Rightarrow> v | _ \<Rightarrow> 0)
             | _ \<Rightarrow> 0)"
proof (cases "map_of data s1")
  case None
  with assms(1) show ?thesis by (simp add: own_distinct cell_def)
next
  case (Some r)
  show ?thesis
  proof (cases r)
    case None
    with Some assms(1) show ?thesis by (simp add: own_distinct cell_def)
  next
    case (Some row)
    with \<open>map_of data s1 = Some r\<close> have "(s1, Some row) \<in> set data"
      by (simp add: map_of_SomeD)
    with assms(2) have "distinct (map fst row)" by blast
    then have "own row = map_of row" by (rule own_distinct)
    with Some \<open>map_of data s1 = Some r\<close> assms(1,3) show ?thesis
      by (simp add: own_distinct cell_def split: option.splits)
  qed
qed

lemma matrixData_shown:
  assumes "distinct (map fst data)"
    and "\<forall>s r. (s, Some r) \<in> set data \<longrightarrow> distinct (map fst r)"
    and "list_all (\<lambda>s. s \<notin> set Object_prototype_names) (map fst data)"
  shows "matrixData data =
     map (map Number)
       (map (\<lambda>s1. map (\<lambda>s2. case map_of data s1 of
                                Some (Some row) \<Rightarrow> (case map_of row s2 of Some (Some v) \<Rightarrow> v | _ \<Rightarrow> 0)
                              | _ \<Rightarrow> 0) (labels data)) (labels data))"
proof -
  have "s2 \<notin> set Object_prototype_names" if "s2 \<in> set (labels data)" for s2
    using that assms(3) by (auto simp: labels_def set_Object_keys list_all_iff)
  then show ?thesis
    using cell_shown [OF assms(1,2)] by (simp add: matrixData_def)
qed


lemma CorrelationHeatmap_shown:
  assumes "\<not> loading" "data \<noteq> []" "distinct (map fst data)"
    and "\<forall>s r. (s, Some r) \<in> set data \<longrightarrow> distinct (map fst r)"
    and "list_all (\<lambda>s. s \<notin> set Object_prototype_names) (map fst data)"
  shows "CorrelationHeatmap toFixed3 loading data =
     Inr (Plot \<lparr>hm_z = map (map Number)
                   (map (\<lambda>s1. map (\<lambda>s2. case map_of data s1 of
                                Some (Some row) \<Rightarrow> (case map_of row s2 of Some (Some v) \<Rightarrow> v | _ \<Rightarrow> 0)
                              | _ \<Rightarrow> 0) (labels data)) (labels data)),
                hm_x = labels data, hm_y = labels data,
                hm_text = map (map toFixed3)
                   (map (\<lambda>s1. map (\<lambda>s2. case map_of data s1 of
                                Some (Some row) \<Rightarrow> (case map_of row s2 of Some (Some v) \<Rightarrow> v | _ \<Rightarrow> 0)
                              | _ \<Rightarrow> 0) (labels data)) (labels data))\<rparr>)"
proof -
  have k: "length (Object_keys data) \<noteq> 0"
    using assms(2) by (simp add: Object_keys_empty)
  show ?thesis
    unfolding CorrelationHeatmap_def matrixData_shown [OF assms(3,4,5)] all_ok_numbers
    using assms(1) k by simp
qed


lemma inherited_names_have_lower_case:
  "list_all (list_ex lower_case_letter) Object_prototype_names"
  by (simp add: Object_prototype_names_def lower_case_letter_def)

lemma upper_case_not_inherited:
  "\<not> list_ex lower_case_letter s \<Longrightarrow> s \<notin> set Object_prototype_names"
  using inherited_names_have_lower_case by (auto simp: list_all_iff)

lemma own_nulls_row:
  "own (map (\<lambda>(symbol2, v). (symbol2, Some (case v of None \<Rightarrow> 0 | Some x \<Rightarrow> x))) row) k =
   map_option (\<lambda>v. Some (case v of None \<Rightarrow> (0::real) | Some x \<Rightarrow> x)) (own row k)"
  by (simp add: own_def rev_map map_of_map)

lemma own_nulls_as_zero:
  "own (nulls_as_zero data) k =
   map_option (map_option (map (\<lambda>(symbol2, v). (symbol2, Some (case v of None \<Rightarrow> 0 | Some x \<Rightarrow> x)))))
     (own data k)"
  by (simp add: own_def nulls_as_zero_def rev_map map_of_map)

lemma labels_nulls_as_zero: "labels (nulls_as_zero data) = labels data"
proof -
  have "map fst (nulls_as_zero data) = map fst data"
    by (simp add: nulls_as_zero_def case_prod_unfold comp_def)
  then show ?thesis
    by (simp add: labels_def Object_keys_def own_keys_def)
qed

lemma cell_nulls_as_zero: "cell (own (nulls_as_zero data) s1) s2 = cell (own data s1) s2"
  by (simp add: cell_def own_nulls_as_zero own_nulls_row split: option.splits)

lemma matrixData_nulls_as_zero: "matrixData (nulls_as_zero data) = matrixData data"
  by (simp add: matrixData_def cell_nulls_as_zero labels_nulls_as_zero)

lemma CorrelationHeatmap_nulls_as_zero:
  "CorrelationHeatmap toFixed3 loading (nulls_as_zero data) = CorrelationHeatmap toFixed3 loading data"
proof -
  have k: "Object_keys (nulls_as_zero data) = Object_keys data"
    using labels_nulls_as_zero [of data] by (simp add: labels_def)
  show ?thesis
    unfolding CorrelationHeatmap_def matrixData_nulls_as_zero labels_nulls_as_zero k ..
qed

lemma not_array_index_letter: "\<not> is_digit c \<Longrightarrow> \<not> is_array_index (c # s)"
  by (simp add: is_array_index_def)

lemma inherited_name_breaks_render:
  "matrixData [(''constructor'', Some [])] = [[Inherited ''constructor'']]"
  "CorrelationHeatmap toFixed3 False [(''constructor'', Some [])] = Inl TypeError"
proof -
  have l: "labels [(''constructor'', Some [])] = [''constructor'']"
    by (simp add: labels_def Object_keys_def own_keys_def not_array_index_letter is_digit_def)
  show m: "matrixData [(''constructor'', Some [])] = [[Inherited ''constructor'']]"
    by (simp add: matrixData_def l cell_def own_def Object_prototype_names_def)
  show "CorrelationHeatmap toFixed3 False [(''constructor'', Some [])] = Inl TypeError"
    using l by (simp add: CorrelationHeatmap_def m labels_def)
qed

lemma labels_integer_like_first:
  "labels [(''10'', None), (''b'', None), (''2'', None)] = [''2'', ''10'', ''b'']"
  by (simp add: labels_def Object_keys_def own_keys_def is_array_index_def is_digit_def
      digits_value_def)


text \<open>
  C9. The heatmap maps every null or missing cell to 0 before display. A null
  row and a null cell give 0 whatever the symbols; a missing cell gives 0 for
  every symbol that is not the name of a property all objects inherit, which
  no upper-cased symbol is; a cell holding a number gives that number. The
  labels are the keys of the matrix, each once, array indices first. For a
  matrix without repeated keys whose symbols are not inherited names, the
  component returns the plot whose \<open>z\<close> holds, for every pair of labels, the
  number of the cell, or 0 when the row or the cell is null or missing, and
  whose text is these values formatted. For every matrix the component
  returns exactly what it returns for the matrix in which each null cell is
  replaced by a correlation of 0.
\<close>

theorem C9_null_cell_rendered_as_zero:
  "cell None a = Number 0
   \<and> cell (Some None) a = Number 0
   \<and> (distinct (map fst rowa) \<and> (b, None) \<in> set rowa \<longrightarrow> cell (Some (Some rowa)) b = Number 0)
   \<and> (c \<notin> fst ` set rowb \<and> c \<notin> set Object_prototype_names \<longrightarrow>
        cell (Some (Some rowb)) c = Number 0)
   \<and> (distinct (map fst rowc) \<and> (d, Some v) \<in> set rowc \<longrightarrow> cell (Some (Some rowc)) d = Number v)
   \<and> set (labels obj) = fst ` set obj
   \<and> distinct (labels obj)
   \<and> (distinct (map fst obj) \<longrightarrow>
        labels obj = sort_key digits_value (filter is_array_index (map fst obj))
                     @ filter (\<lambda>k. \<not> is_array_index k) (map fst obj))
   \<and> (\<not> loading \<and> data \<noteq> [] \<and> distinct (map fst data)
        \<and> (\<forall>s r. (s, Some r) \<in> set data \<longrightarrow> distinct (map fst r))
        \<and> list_all (\<lambda>s. s \<notin> set Object_prototype_names) (map fst data) \<longrightarrow>
        CorrelationHeatmap format loading data =
          Inr (Plot \<lparr>hm_z = map (map Number)
                   (map (\<lambda>s1. map (\<lambda>s2. case map_of data s1 of
                                Some (Some row) \<Rightarrow> (case map_of row s2 of Some (Some v) \<Rightarrow> v | _ \<Rightarrow> 0)
                              | _ \<Rightarrow> 0) (labels data)) (labels data)),
                hm_x = labels data, hm_y = labels data,
                hm_text = map (map format)
                   (map (\<lambda>s1. map (\<lambda>s2. case map_of data s1 of
                                Some (Some row) \<Rightarrow> (case map_of row s2 of Some (Some v) \<Rightarrow> v | _ \<Rightarrow> 0)
                              | _ \<Rightarrow> 0) (labels data)) (labels data))\<rparr>))
   \<and> matrixData (nulls_as_zero m) = matrixData m
   \<and> CorrelationHeatmap fmt ld (nulls_as_zero m) = CorrelationHeatmap fmt ld m"
proof (intro conjI impI)
  show "cell None a = Number 0" and "cell (Some None) a = Number 0"
    by (rule cell_null)+
  show "set (labels obj) = fst ` set obj"
    by (simp add: labels_def set_Object_keys)
  show "distinct (labels obj)"
    by (simp add: labels_def distinct_Object_keys)
  show "matrixData (nulls_as_zero m) = matrixData m"
    by (rule matrixData_nulls_as_zero)
  show "CorrelationHeatmap fmt ld (nulls_as_zero m) = CorrelationHeatmap fmt ld m"
    by (rule CorrelationHeatmap_nulls_as_zero)
next
  assume "distinct (map fst rowa) \<and> (b, None) \<in> set rowa"
  then show "cell (Some (Some rowa)) b = Number 0"
    using cell_null_cell [of rowa b] by blast
next
  assume "c \<notin> fst ` set rowb \<and> c \<notin> set Object_prototype_names"
  then show "cell (Some (Some rowb)) c = Number 0"
    using cell_missing [of c rowb] by blast
next
  assume "distinct (map fst rowc) \<and> (d, Some v) \<in> set rowc"
  then show "cell (Some (Some rowc)) d = Number v"
    using cell_number [of rowc d v] by blast
next
  assume "distinct (map fst obj)"
  then show "labels obj = sort_key digits_value (filter is_array_index (map fst obj))
                     @ filter (\<lambda>k. \<not> is_array_index k) (map fst obj)"
    unfolding labels_def by (rule Object_keys_distinct)
next
  assume h: "\<not> loading \<and> data \<noteq> [] \<and> distinct (map fst data)
        \<and> (\<forall>s r. (s, Some r) \<in> set data \<longrightarrow> distinct (map fst r))
        \<and> list_all (\<lambda>s. s \<notin> set Object_prototype_names) (map fst data)"
  show "CorrelationHeatmap format loading data =
          Inr (Plot \<lparr>hm_z = map (map Number)
                   (map (\<lambda>s1. map (\<lambda>s2. case map_of data s1 of
                                Some (Some row) \<Rightarrow> (case map_of row s2 of Some (Some v) \<Rightarrow> v | _ \<Rightarrow> 0)
                              | _ \<Rightarrow> 0) (labels data)) (labels data)),
                hm_x = labels data, hm_y = labels data,
                hm_text = map (map format)
                   (map (\<lambda>s1. map (\<lambda>s2. case map_of data s1 of
                                Some (Some row) \<Rightarrow> (case map_of row s2 of Some (Some v) \<Rightarrow> v | _ \<Rightarrow> 0)
                              | _ \<Rightarrow> 0) (labels data)) (labels data))\<rparr>)"
    by (rule CorrelationHeatmap_shown) (use h in blast)+
qed

lemma example_labels: "labels example_matrix = [''BTCUSDT'', ''ETHUSDT'', ''BNBUSDT'']"
  by (simp add: example_matrix_def labels_def Object_keys_def own_keys_def
      not_array_index_letter is_digit_def)

theorem C9_null_cell_rendered_as_zero_witness:
  "CorrelationHeatmap example_format False example_matrix =
     Inr (Plot \<lparr>hm_z = [[Number 1, Number 0.5, Number 0],
                        [Number 0.5, Number 1, Number 0],
                        [Number 0, Number 0, Number 0]],
                hm_x = [''BTCUSDT'', ''ETHUSDT'', ''BNBUSDT''],
                hm_y = [''BTCUSDT'', ''ETHUSDT'', ''BNBUSDT''],
                hm_text = [[''1.000'', ''0.500'', ''0.000''],
                           [''0.500'', ''1.000'', ''0.000''],
                           [''0.000'', ''0.000'', ''0.000'']]\<rparr>)
   \<and> cell (Some (Some [(''BTCUSDT'', Some 1), (''ETHUSDT'', Some 0.5), (''BNBUSDT'', None)]))
        ''BNBUSDT'' = Number 0
   \<and> cell (Some (Some [(''BTCUSDT'', Some 0.5), (''ETHUSDT'', Some 1)])) ''BNBUSDT'' = Number 0
   \<and> cell (Some (Some [(''BTCUSDT'', Some 0.5), (''ETHUSDT'', Some 1)])) ''ETHUSDT'' = Number 1
   \<and> labels [(''10'', None :: corr_row option), (''b'', None), (''2'', None)] = [''2'', ''10'', ''b'']"
proof -
  note T = C9_null_cell_rendered_as_zero
    [where rowa = "[(''BTCUSDT'', Some 1), (''ETHUSDT'', Some 0.5), (''BNBUSDT'', None)]"
       and b = "''BNBUSDT''"
       and rowb = "[(''BTCUSDT'', Some 0.5), (''ETHUSDT'', Some 1)]" and c = "''BNBUSDT''"
       and rowc = "[(''BTCUSDT'', Some 0.5), (''ETHUSDT'', Some 1)]" and d = "''ETHUSDT''"
       and v = 1
       and obj = "[(''10'', None), (''b'', None), (''2'', None)]"
       and loading = False and data = example_matrix and format = example_format]
  have h1: "distinct (map fst [(''BTCUSDT'', Some (1::real)), (''ETHUSDT'', Some 0.5), (''BNBUSDT'', None)])
      \<and> (''BNBUSDT'', None) \<in> set [(''BTCUSDT'', Some (1::real)), (''ETHUSDT'', Some 0.5), (''BNBUSDT'', None)]"
    by simp
  have h2: "''BNBUSDT'' \<notin> fst ` set [(''BTCUSDT'', Some (0.5::real)), (''ETHUSDT'', Some 1)]
      \<and> ''BNBUSDT'' \<notin> set Object_prototype_names"
    by (simp add: Object_prototype_names_def)
  have h3: "distinct (map fst [(''BTCUSDT'', Some (0.5::real)), (''ETHUSDT'', Some 1)])
      \<and> (''ETHUSDT'', Some 1) \<in> set [(''BTCUSDT'', Some (0.5::real)), (''ETHUSDT'', Some 1)]"
    by simp
  have h4: "distinct (map fst [(''10'', None :: corr_row option), (''b'', None), (''2'', None)])"
    by simp
  have h5: "\<not> False \<and> example_matrix \<noteq> [] \<and> distinct (map fst example_matrix)
        \<and> (\<forall>s r. (s, Some r) \<in> set example_matrix \<longrightarrow> distinct (map fst r))
        \<and> list_all (\<lambda>s. s \<notin> set Object_prototype_names) (map fst example_matrix)"
    by (auto simp: example_matrix_def Object_prototype_names_def)
  from T h1 h2 h3 h4 h5 have
    c1: "cell (Some (Some [(''BTCUSDT'', Some 1), (''ETHUSDT'', Some 0.5), (''BNBUSDT'', None)]))
        ''BNBUSDT'' = Number 0"
    and c2: "cell (Some (Some [(''BTCUSDT'', Some 0.5), (''ETHUSDT'', Some 1)])) ''BNBUSDT'' = Number 0"
    and c3: "cell (Some (Some [(''BTCUSDT'', Some 0.5), (''ETHUSDT'', Some 1)])) ''ETHUSDT'' = Number 1"
    and l: "labels [(''10'', None :: corr_row option), (''b'', None), (''2'', None)] =
        sort_key digits_value (filter is_array_index (map fst [(''10'', None :: corr_row option), (''b'', None), (''2'', None)]))
                     @ filter (\<lambda>k. \<not> is_array_index k) (map fst [(''10'', None :: corr_row option), (''b'', None), (''2'', None)])"
    and p: "CorrelationHeatmap example_format False example_matrix =
          Inr (Plot \<lparr>hm_z = map (map Number)
                   (map (\<lambda>s1. map (\<lambda>s2. case map_of example_matrix s1 of
                                Some (Some row) \<Rightarrow> (case map_of row s2 of Some (Some v) \<Rightarrow> v | _ \<Rightarrow> 0)
                              | _ \<Rightarrow> 0) (labels example_matrix)) (labels example_matrix)),
                hm_x = labels example_matrix, hm_y = labels example_matrix,
                hm_text = map (map example_format)
                   (map (\<lambda>s1. map (\<lambda>s2. case map_of example_matrix s1 of
                                Some (Some row) \<Rightarrow> (case map_of row s2 of Some (Some v) \<Rightarrow> v | _ \<Rightarrow> 0)
                              | _ \<Rightarrow> 0) (labels example_matrix)) (labels example_matrix))\<rparr>)"
    by blast+
  have l': "labels [(''10'', None :: corr_row option), (''b'', None), (''2'', None)] = [''2'', ''10'', ''b'']"
    unfolding l by (simp add: is_array_index_def is_digit_def digits_value_def)
  have p': "CorrelationHeatmap example_format False example_matrix =
     Inr (Plot \<lparr>hm_z = [[Number 1, Number 0.5, Number 0],
                        [Number 0.5, Number 1, Number 0],
                        [Number 0, Number 0, Number 0]],
                hm_x = [''BTCUSDT'', ''ETHUSDT'', ''BNBUSDT''],
                hm_y = [''BTCUSDT'', ''ETHUSDT'', ''BNBUSDT''],
                hm_text = [[''1.000'', ''0.500'', ''0.000''],
                           [''0.500'', ''1.000'', ''0.000''],
                           [''0.000'', ''0.000'', ''0.000'']]\<rparr>)"
    unfolding p example_labels by (simp add: example_matrix_def example_format_def)
  from c1 c2 c3 l' p' show ?thesis by blast
qed

section \<open>Properties of the WebSocket hook\<close>

lemma getReconnectDelay_eq: "getReconnectDelay n = min (1000 * 2 ^ n) 30000"
  by (simp add: getReconnectDelay_def baseReconnectDelay_def maxReconnectDelay_def)

lemma timers_clearTimeout_length: "length (timers (clearTimeout k s)) = length (timers s)"
  by (simp add: clearTimeout_def)

lemma sockets_clearTimeout: "sockets (clearTimeout k s) = sockets s"
  by (simp add: clearTimeout_def)

lemma attempts_clearTimeout: "reconnectAttempts (clearTimeout k s) = reconnectAttempts s"
  by (simp add: clearTimeout_def)

lemma timers_close_socket: "timers (close_socket i s) = timers s"
  by (simp add: close_socket_def)

lemma onclose_unclean:
  assumes "isMounted s" "shouldReconnect s" "i < length (sockets s)" "sockets s ! i \<noteq> CLOSED"
    and "code \<noteq> 1000" "reconnectAttempts s < 10"
  shows "reconnectAttempts (fire (OnClose i code) s) = reconnectAttempts s + 1"
    and "timers (fire (OnClose i code) s) =
           timers s @ [\<lparr>callback = AfterClose, delay = min (1000 * 2 ^ reconnectAttempts s) 30000,
                        pending = True\<rparr>]"
  using assms
  by (simp_all add: onclose_def setTimeout_def Let_def maxReconnectAttempts_def getReconnectDelay_eq)

lemma onclose_clean:
  "timers (fire (OnClose i 1000) s) = timers s"
  "reconnectAttempts (fire (OnClose i 1000) s) = reconnectAttempts s"
  by (simp_all add: onclose_def Let_def)

lemma connect_no_throw_timers: "timers (connect False s) = timers s"
  by (simp add: connect_def Let_def timers_close_socket split: option.splits)

lemma timers_grow_only:
  assumes "length (timers s) < length (timers (fire e s))"
  shows "(\<exists>i code. e = OnClose i code \<and> code \<noteq> 1000) \<or> (\<exists>k. e = TimerFires k True)"
proof (cases e)
  case (OnOpen i)
  with assms show ?thesis by (simp add: onopen_def timers_close_socket split: if_splits)
next
  case (OnError i)
  with assms show ?thesis by (simp add: onerror_def split: if_splits)
next
  case (OnClose i code)
  with assms show ?thesis by (auto simp: onclose_def Let_def split: if_splits)
next
  case (TimerFires k throws)
  have "throws"
  proof (rule ccontr)
    assume "\<not> throws"
    then have "throws = False" by simp
    with assms TimerFires show False
      by (cases "callback (timers s ! k)")
         (simp_all add: connect_no_throw_timers timers_clearTimeout_length split: if_splits)
  qed
  with TimerFires show ?thesis by simp
next
  case Unmount
  with assms show ?thesis
    by (simp add: cleanup_def Let_def timers_close_socket timers_clearTimeout_length
        split: if_splits option.splits)
qed

lemma mount_timer_only_on_throw: "timers (mount False) = []"
  by (simp add: mount_def initial_def connect_def maxReconnectAttempts_def)

lemma onopen_resets:
  assumes "isMounted s" "i < length (sockets s)" "sockets s ! i = CONNECTING"
  shows "reconnectAttempts (fire (OnOpen i) s) = 0" "isConnected (fire (OnOpen i) s)"
  using assms by (simp_all add: onopen_def)

lemma connect_stopped: "maxReconnectAttempts \<le> reconnectAttempts s \<Longrightarrow> connect throws s = s"
  by (simp add: connect_def)

lemma close_socket_closed: "list_all (\<lambda>r. r = CLOSED) (sockets s) \<Longrightarrow> close_socket i s = s"
  by (auto simp: close_socket_def list_all_length)

lemma fire_stopped:
  assumes "stopped s"
  shows "sockets (fire e s) = sockets s \<and> reconnectAttempts (fire e s) = reconnectAttempts s
         \<and> length (timers (fire e s)) = length (timers s)"
proof (cases e)
  case (OnOpen i)
  with assms show ?thesis by (auto simp: stopped_def list_all_length)
next
  case (OnError i)
  then show ?thesis by (simp add: onerror_def)
next
  case (OnClose i code)
  with assms show ?thesis by (auto simp: stopped_def list_all_length)
next
  case (TimerFires k throws)
  from assms have "maxReconnectAttempts \<le> reconnectAttempts (clearTimeout k s)"
    by (simp add: stopped_def attempts_clearTimeout)
  then have "connect throws (clearTimeout k s) = clearTimeout k s" by (rule connect_stopped)
  with TimerFires show ?thesis
    by (cases "callback (timers s ! k)")
       (simp_all add: sockets_clearTimeout attempts_clearTimeout timers_clearTimeout_length)
next
  case Unmount
  from assms have c: "list_all (\<lambda>r. r = CLOSED) (sockets s)" by (simp add: stopped_def)
  show ?thesis unfolding Unmount
    using c by (auto simp: cleanup_def Let_def clearTimeout_def close_socket_def list_all_length
        split: option.splits)
qed

lemma fire_stopped_stopped: "stopped s \<Longrightarrow> stopped (fire e s)"
  using fire_stopped [of s e] by (simp add: stopped_def)

lemma run_stopped:
  "stopped s \<Longrightarrow> sockets (run s es) = sockets s \<and> reconnectAttempts (run s es) = reconnectAttempts s
     \<and> length (timers (run s es)) = length (timers s)"
proof (induction es arbitrary: s)
  case Nil
  then show ?case by (simp add: run_def)
next
  case (Cons e es)
  from Cons.prems have "stopped (fire e s)" by (rule fire_stopped_stopped)
  from Cons.IH [OF this] fire_stopped [OF Cons.prems, of e]
  show ?case by (simp add: run_def)
qed


lemma ten_failed_attempts_unfold:
  "ten_failed_attempts =
     [OnClose 0 1006, TimerFires 0 False, OnClose 1 1006, TimerFires 1 False,
      OnClose 2 1006, TimerFires 2 False, OnClose 3 1006, TimerFires 3 False,
      OnClose 4 1006, TimerFires 4 False, OnClose 5 1006, TimerFires 5 False,
      OnClose 6 1006, TimerFires 6 False, OnClose 7 1006, TimerFires 7 False,
      OnClose 8 1006, TimerFires 8 False, OnClose 9 1006, TimerFires 9 False]"
  by (simp add: ten_failed_attempts_def upt_rec)

lemma run_ten_failed_attempts:
  "run (mount False) ten_failed_attempts =
    \<lparr>isMounted = True, shouldReconnect = True, isConnected = False,
      reconnectAttempts = 10, wsRef = Some 9, reconnectTimeoutRef = Some 9,
      sockets = [CLOSED, CLOSED, CLOSED, CLOSED, CLOSED, CLOSED, CLOSED, CLOSED, CLOSED, CLOSED],
      timers = [\<lparr>callback = AfterClose, delay = 1000, pending = False\<rparr>,
                \<lparr>callback = AfterClose, delay = 2000, pending = False\<rparr>,
                \<lparr>callback = AfterClose, delay = 4000, pending = False\<rparr>,
                \<lparr>callback = AfterClose, delay = 8000, pending = False\<rparr>,
                \<lparr>callback = AfterClose, delay = 16000, pending = False\<rparr>,
                \<lparr>callback = AfterClose, delay = 30000, pending = False\<rparr>,
                \<lparr>callback = AfterClose, delay = 30000, pending = False\<rparr>,
                \<lparr>callback = AfterClose, delay = 30000, pending = False\<rparr>,
                \<lparr>callback = AfterClose, delay = 30000, pending = False\<rparr>,
                \<lparr>callback = AfterClose, delay = 30000, pending = False\<rparr>]\<rparr>"
  by (simp add: ten_failed_attempts_unfold run_def mount_def initial_def connect_def onclose_def
      setTimeout_def clearTimeout_def is_closed_def close_socket_def Let_def
      maxReconnectAttempts_def getReconnectDelay_eq)

lemma stopped_after_ten_failed_attempts: "stopped (run (mount False) ten_failed_attempts)"
  by (simp add: run_ten_failed_attempts stopped_def maxReconnectAttempts_def)

lemma mount_False:
  "mount False =
    \<lparr>isMounted = True, shouldReconnect = True, isConnected = False,
      reconnectAttempts = 0, wsRef = Some 0, reconnectTimeoutRef = None,
      sockets = [CONNECTING], timers = []\<rparr>"
  by (simp add: mount_def initial_def connect_def maxReconnectAttempts_def)

lemma mount_True:
  "mount True =
    \<lparr>isMounted = True, shouldReconnect = True, isConnected = False,
      reconnectAttempts = 1, wsRef = None, reconnectTimeoutRef = Some 0,
      sockets = [], timers = [\<lparr>callback = AfterThrow, delay = 1000, pending = True\<rparr>]\<rparr>"
  by (simp add: mount_def initial_def connect_def maxReconnectAttempts_def setTimeout_def
      getReconnectDelay_eq Let_def)

lemma sockets_grow_only:
  assumes "length (sockets s) < length (sockets (fire e s))"
  shows "\<exists>k. e = TimerFires k False \<and> k < length (timers s) \<and> pending (timers s ! k)"
proof (cases e)
  case (OnOpen i)
  with assms show ?thesis by (simp add: onopen_def close_socket_def split: if_splits)
next
  case (OnError i)
  with assms show ?thesis by (simp add: onerror_def split: if_splits)
next
  case (OnClose i code)
  with assms show ?thesis by (simp add: onclose_def setTimeout_def Let_def split: if_splits)
next
  case (TimerFires k throws)
  have "\<not> throws"
  proof
    assume "throws"
    then have t: "throws = True" by simp
    have "length (sockets (connect True u)) = length (sockets u)" for u
      by (simp add: connect_def Let_def setTimeout_def close_socket_def split: option.splits)
    with assms TimerFires t show False
      by (cases "callback (timers s ! k)") (simp_all add: sockets_clearTimeout split: if_splits)
  qed
  with assms TimerFires show ?thesis by (auto split: if_splits)
next
  case Unmount
  with assms show ?thesis
    by (simp add: cleanup_def Let_def close_socket_def clearTimeout_def
        split: if_splits option.splits)
qed

lemma connect_throws:
  assumes "isMounted s" "shouldReconnect s" "reconnectAttempts s + 1 < 10"
  shows "reconnectAttempts (connect True s) = reconnectAttempts s + 1"
    and "timers (connect True s) =
           timers s @ [\<lparr>callback = AfterThrow, delay = min (1000 * 2 ^ reconnectAttempts s) 30000,
                        pending = True\<rparr>]"
  using assms
  by (simp_all add: connect_def Let_def setTimeout_def close_socket_def maxReconnectAttempts_def
      getReconnectDelay_eq split: option.splits)

lemma length_filter_update:
  "i < length xs \<Longrightarrow>
   length (filter P (xs[i := y])) + (if P (xs ! i) then 1 else 0) =
   length (filter P xs) + (if P y then 1 else 0)"
proof (induction xs arbitrary: i)
  case Nil
  then show ?case by simp
next
  case (Cons x xs)
  show ?case
  proof (cases i)
    case 0
    then show ?thesis by simp
  next
    case (Suc j)
    with Cons.prems have "j < length xs" by simp
    from Cons.IH [OF this] Suc show ?thesis by simp
  qed
qed

lemma no_live_all_closed: "live_sockets s = 0 \<longleftrightarrow> list_all (\<lambda>r. r = CLOSED) (sockets s)"
  by (auto simp: live_sockets_def filter_empty_conv list_all_iff)

lemma live_pos: "i < length (sockets s) \<Longrightarrow> sockets s ! i \<noteq> CLOSED \<Longrightarrow> 0 < live_sockets s"
  using no_live_all_closed [of s] by (auto simp: list_all_length)

lemma live_fields:
  "live_sockets (isMounted_update f1 s) = live_sockets s"
  "live_sockets (shouldReconnect_update f2 s) = live_sockets s"
  "live_sockets (isConnected_update f3 s) = live_sockets s"
  "live_sockets (reconnectAttempts_update f4 s) = live_sockets s"
  "live_sockets (wsRef_update f5 s) = live_sockets s"
  "live_sockets (reconnectTimeoutRef_update f6 s) = live_sockets s"
  "live_sockets (timers_update f7 s) = live_sockets s"
  by (simp_all add: live_sockets_def)

lemma pending_fields:
  "pending_timers (isMounted_update f1 s) = pending_timers s"
  "pending_timers (shouldReconnect_update f2 s) = pending_timers s"
  "pending_timers (isConnected_update f3 s) = pending_timers s"
  "pending_timers (reconnectAttempts_update f4 s) = pending_timers s"
  "pending_timers (wsRef_update f5 s) = pending_timers s"
  "pending_timers (reconnectTimeoutRef_update f6 s) = pending_timers s"
  "pending_timers (sockets_update f7 s) = pending_timers s"
  by (simp_all add: pending_timers_def)

lemma live_set_socket:
  "i < length (sockets s) \<Longrightarrow>
   live_sockets (s\<lparr>sockets := (sockets s)[i := r]\<rparr>) + (if sockets s ! i \<noteq> CLOSED then 1 else 0) =
   live_sockets s + (if r \<noteq> CLOSED then 1 else 0)"
  using length_filter_update [of i "sockets s" "\<lambda>r. r \<noteq> CLOSED" r]
  by (simp add: live_sockets_def)

lemma close_socket_measures:
  "live_sockets (close_socket i s) = live_sockets s"
  "pending_timers (close_socket i s) = pending_timers s"
  "reconnectAttempts (close_socket i s) = reconnectAttempts s"
proof -
  show "live_sockets (close_socket i s) = live_sockets s"
    using live_set_socket [of i s CLOSING] by (auto simp: close_socket_def)
qed (simp_all add: close_socket_def pending_fields)

lemma clearTimeout_measures:
  "live_sockets (clearTimeout k s) = live_sockets s"
  "reconnectAttempts (clearTimeout k s) = reconnectAttempts s"
  "pending_timers (clearTimeout k s) \<le> pending_timers s"
  "k < length (timers s) \<Longrightarrow> pending (timers s ! k) \<Longrightarrow>
     pending_timers (clearTimeout k s) + 1 = pending_timers s"
proof -
  have u: "k < length (timers s) \<Longrightarrow>
     pending_timers (clearTimeout k s) + (if pending (timers s ! k) then 1 else 0) = pending_timers s"
    using length_filter_update [of k "timers s" pending "(timers s ! k)\<lparr>pending := False\<rparr>"]
    by (simp add: clearTimeout_def pending_timers_def)
  show "pending_timers (clearTimeout k s) \<le> pending_timers s"
    using u by (cases "k < length (timers s)") (simp_all add: clearTimeout_def)
  show "k < length (timers s) \<Longrightarrow> pending (timers s ! k) \<Longrightarrow>
     pending_timers (clearTimeout k s) + 1 = pending_timers s"
    using u by simp
qed (simp_all add: clearTimeout_def live_fields)

lemma setTimeout_measures:
  "live_sockets (setTimeout cb ms s) = live_sockets s"
  "pending_timers (setTimeout cb ms s) = pending_timers s + 1"
  "reconnectAttempts (setTimeout cb ms s) = reconnectAttempts s"
  by (simp_all add: setTimeout_def live_sockets_def pending_timers_def)

lemma connect_one_at_a_time:
  assumes "live_sockets s = 0" "pending_timers s = 0"
  shows "one_at_a_time (connect throws s)"
proof -
  have c: "close_socket i s = s" for i
    using assms(1) by (auto simp: close_socket_def no_live_all_closed list_all_length)
  have n: "live_sockets (u\<lparr>sockets := sockets u @ [CONNECTING]\<rparr>) = live_sockets u + 1" for u
    by (simp add: live_sockets_def)
  show ?thesis
    using assms
    by (simp add: connect_def Let_def c n one_at_a_time_def live_fields pending_fields
        setTimeout_measures split: option.splits)
qed

lemma onopen_one_at_a_time:
  assumes "one_at_a_time s" "i < length (sockets s)" "sockets s ! i = CONNECTING"
  shows "one_at_a_time (onopen i (s\<lparr>sockets := (sockets s)[i := OPEN]\<rparr>))"
proof -
  let ?s = "s\<lparr>sockets := (sockets s)[i := OPEN]\<rparr>"
  from live_set_socket [OF assms(2), of OPEN] assms(3)
  have l: "live_sockets ?s = live_sockets s" by simp
  have p: "pending_timers ?s = pending_timers s" by (simp add: pending_timers_def)
  from live_pos [OF assms(2)] assms(3) have "0 < live_sockets s" by simp
  with assms(1) l p show ?thesis
    by (simp add: onopen_def one_at_a_time_def close_socket_measures live_fields pending_fields
        maxReconnectAttempts_def)
qed

lemma onclose_one_at_a_time:
  assumes "one_at_a_time s" "i < length (sockets s)" "sockets s ! i \<noteq> CLOSED"
  shows "one_at_a_time (onclose code (s\<lparr>sockets := (sockets s)[i := CLOSED]\<rparr>))"
proof -
  let ?s = "s\<lparr>sockets := (sockets s)[i := CLOSED]\<rparr>"
  from live_set_socket [OF assms(2), of CLOSED] assms(3)
  have l: "live_sockets ?s + 1 = live_sockets s" by simp
  have p: "pending_timers ?s = pending_timers s" by (simp add: pending_timers_def)
  from assms(1) l p have z: "live_sockets ?s = 0" "pending_timers ?s = 0"
    by (simp_all add: one_at_a_time_def)
  then show ?thesis
    by (simp add: onclose_def Let_def one_at_a_time_def live_fields pending_fields
        setTimeout_measures)
qed

lemma cleanup_one_at_a_time:
  assumes "one_at_a_time s"
  shows "one_at_a_time (cleanup s)"
proof -
  let ?s1 = "s\<lparr>isMounted := False, shouldReconnect := False\<rparr>"
  define s2 where "s2 = (case reconnectTimeoutRef ?s1 of None \<Rightarrow> ?s1 | Some k \<Rightarrow> clearTimeout k ?s1)"
  have l2: "live_sockets s2 = live_sockets s" and a2: "reconnectAttempts s2 = reconnectAttempts s"
    by (simp_all add: s2_def clearTimeout_measures live_fields split: option.splits)
  have p2: "pending_timers s2 \<le> pending_timers s"
    using clearTimeout_measures(3) [of _ ?s1]
    by (simp add: s2_def pending_fields split: option.splits)
  have "one_at_a_time s2"
    using assms l2 a2 p2 by (simp add: one_at_a_time_def)
  then have "one_at_a_time (case wsRef s2 of None \<Rightarrow> s2 | Some i \<Rightarrow> (close_socket i s2)\<lparr>wsRef := None\<rparr>)"
    by (simp add: one_at_a_time_def close_socket_measures live_fields pending_fields
        split: option.splits)
  then show ?thesis
    unfolding cleanup_def Let_def s2_def .
qed

lemma fire_one_at_a_time:
  assumes "one_at_a_time s"
  shows "one_at_a_time (fire e s)"
proof (cases e)
  case (OnOpen i)
  with assms onopen_one_at_a_time [of s i] show ?thesis by simp
next
  case (OnError i)
  with assms show ?thesis
    by (simp add: onerror_def one_at_a_time_def live_fields pending_fields)
next
  case (OnClose i code)
  with assms onclose_one_at_a_time [of s i code] show ?thesis by simp
next
  case (TimerFires k throws)
  show ?thesis
  proof (cases "k < length (timers s) \<and> pending (timers s ! k)")
    case True
    then have k: "k < length (timers s)" and pk: "pending (timers s ! k)" by simp_all
    let ?s = "clearTimeout k s"
    from clearTimeout_measures(4) [OF k pk] assms
    have z: "live_sockets ?s = 0" "pending_timers ?s = 0"
      by (simp_all add: one_at_a_time_def clearTimeout_measures)
    then have a: "one_at_a_time ?s"
      by (simp add: one_at_a_time_def)
    have "one_at_a_time (run_callback cb throws ?s)" for cb
      using connect_one_at_a_time [OF z, of throws] a by (cases cb) simp_all
    with True TimerFires show ?thesis by simp
  next
    case False
    with assms TimerFires show ?thesis by auto
  qed
next
  case Unmount
  with assms cleanup_one_at_a_time [of s] show ?thesis by simp
qed

lemma run_one_at_a_time: "one_at_a_time s \<Longrightarrow> one_at_a_time (run s es)"
  unfolding run_def by (induction es arbitrary: s) (simp_all add: fire_one_at_a_time)

lemma mount_one_at_a_time: "one_at_a_time (mount throws)"
  unfolding mount_def
  by (rule connect_one_at_a_time) (simp_all add: initial_def live_sockets_def pending_timers_def)

lemma reachable_stopped:
  "maxReconnectAttempts \<le> reconnectAttempts (run (mount throws) es) \<Longrightarrow> stopped (run (mount throws) es)"
  using run_one_at_a_time [OF mount_one_at_a_time, of throws es]
  by (simp add: one_at_a_time_def stopped_def no_live_all_closed)

lemma connected_is_current_iff:
  "connected_is_current s \<longleftrightarrow>
     (\<forall>i<length (sockets s). sockets s ! i = CLOSING \<or> sockets s ! i = CLOSED \<or> (wsRef s = Some i \<and> isMounted s))"
  by (auto simp: connected_is_current_def list_all_iff)

lemma connect_current:
  assumes "connected_is_current s"
  shows "connected_is_current (connect throws s)"
  using assms
  by (auto simp: connected_is_current_iff connect_def Let_def setTimeout_def close_socket_def
      is_closed_def nth_append nth_list_update split: option.splits)

lemma fire_current:
  assumes "connected_is_current s"
  shows "connected_is_current (fire e s)"
proof (cases e)
  case (OnOpen i)
  with assms show ?thesis
    by (auto simp: connected_is_current_iff onopen_def close_socket_def nth_list_update)
next
  case (OnError i)
  with assms show ?thesis
    by (auto simp: connected_is_current_iff onerror_def)
next
  case (OnClose i code)
  with assms show ?thesis
    by (auto simp: connected_is_current_iff onclose_def Let_def setTimeout_def nth_list_update)
next
  case (TimerFires k throws)
  have c: "connected_is_current (clearTimeout k s)"
    using assms by (simp add: connected_is_current_iff clearTimeout_def)
  have "connected_is_current (run_callback cb throws (clearTimeout k s))" for cb
    using connect_current [OF c, of throws] c by (cases cb) simp_all
  with assms TimerFires show ?thesis by simp
next
  case Unmount
  with assms show ?thesis
    by (auto simp: connected_is_current_iff cleanup_def Let_def clearTimeout_def close_socket_def
        nth_list_update split: option.splits)
qed

lemma run_current: "connected_is_current s \<Longrightarrow> connected_is_current (run s es)"
  unfolding run_def by (induction es arbitrary: s) (simp_all add: fire_current)

lemma mount_current: "connected_is_current (mount throws)"
  unfolding mount_def
  by (rule connect_current) (simp add: connected_is_current_iff initial_def)

lemma reachable_open_resets:
  assumes "i < length (sockets (run (mount throws) es))"
    and "sockets (run (mount throws) es) ! i = CONNECTING"
  shows "reconnectAttempts (fire (OnOpen i) (run (mount throws) es)) = 0"
    and "isConnected (fire (OnOpen i) (run (mount throws) es))"
proof -
  from run_current [OF mount_current, of throws es] assms
  have "isMounted (run (mount throws) es)"
    by (auto simp: connected_is_current_iff)
  with assms show "reconnectAttempts (fire (OnOpen i) (run (mount throws) es)) = 0"
    and "isConnected (fire (OnOpen i) (run (mount throws) es))"
    by (simp_all add: onopen_def)
qed

text \<open>
  C10, as the claim states it: the hook reconnects only after an unclean
  close. This fails: when the \<^verbatim>\<open>WebSocket\<close> constructor throws in the first
  \<^verbatim>\<open>connect()\<close>, the \<^verbatim>\<open>catch\<close> block sets a reconnect timer of 1000 ms, and
  when that timer fires a new socket is created, although no close event has
  occurred at all.
\<close>

theorem C10_reconnect_without_close:
  "timers (mount True) = [\<lparr>callback = AfterThrow, delay = 1000, pending = True\<rparr>]
   \<and> \<not> (\<forall>throws es. length (sockets (mount throws)) < length (sockets (run (mount throws) es))
            \<longrightarrow> (\<exists>i code. OnClose i code \<in> set es \<and> code \<noteq> 1000))"
proof
  show "timers (mount True) = [\<lparr>callback = AfterThrow, delay = 1000, pending = True\<rparr>]"
    by (simp add: mount_True)
  have a: "length (sockets (mount True)) < length (sockets (run (mount True) [TimerFires 0 False]))"
    by (simp add: mount_True run_def clearTimeout_def connect_def maxReconnectAttempts_def)
  have b: "\<not> (\<exists>i code. OnClose i code \<in> set [TimerFires 0 False] \<and> code \<noteq> 1000)"
    by simp
  from a b show "\<not> (\<forall>throws es. length (sockets (mount throws)) < length (sockets (run (mount throws) es))
            \<longrightarrow> (\<exists>i code. OnClose i code \<in> set es \<and> code \<noteq> 1000))"
    by blast
qed

text \<open>
  C10, amended. The delay function is \<open>min (1000 * 2 ^ n) 30000\<close>. While the
  hook is mounted and the counter \<open>n\<close> is below 10, an unclean close (code
  other than 1000) raises the counter to \<open>n + 1\<close> and sets a reconnect timer
  of exactly that delay; a throwing constructor does the same while
  \<open>n + 1\<close> is below 10. A close with code 1000 sets no timer and leaves the
  counter alone. A timer is set by no other event than an unclean close or a
  timer whose \<^verbatim>\<open>connect\<close> throws, none is set at mount unless the constructor
  throws, and a socket is created after mount only when a pending timer fires.
  Ten failed attempts in a row leave the hook stopped; so does every run
  from mount, whatever the events, in which the counter reaches 10; and a
  stopped hook never creates a socket, sets a timer or changes its counter
  again, whatever happens. An open event on a connecting socket of a mounted
  hook resets the counter to 0, and in every run from mount a socket that
  opens belongs to a mounted hook, so every successful connection resets the
  counter.
\<close>

theorem C10_reconnect_policy:
  "getReconnectDelay n = min (1000 * 2 ^ n) 30000
   \<and> (isMounted s \<and> shouldReconnect s \<and> i < length (sockets s) \<and> sockets s ! i \<noteq> CLOSED
        \<and> code \<noteq> 1000 \<and> reconnectAttempts s < 10 \<longrightarrow>
      reconnectAttempts (fire (OnClose i code) s) = reconnectAttempts s + 1
      \<and> timers (fire (OnClose i code) s) =
          timers s @ [\<lparr>callback = AfterClose,
                       delay = min (1000 * 2 ^ reconnectAttempts s) 30000, pending = True\<rparr>])
   \<and> (isMounted c \<and> shouldReconnect c \<and> reconnectAttempts c + 1 < 10 \<longrightarrow>
      reconnectAttempts (connect True c) = reconnectAttempts c + 1
      \<and> timers (connect True c) =
          timers c @ [\<lparr>callback = AfterThrow,
                       delay = min (1000 * 2 ^ reconnectAttempts c) 30000, pending = True\<rparr>])
   \<and> timers (fire (OnClose j 1000) u) = timers u
   \<and> reconnectAttempts (fire (OnClose j 1000) u) = reconnectAttempts u
   \<and> (length (timers v) < length (timers (fire e v)) \<longrightarrow>
        (\<exists>i code. e = OnClose i code \<and> code \<noteq> 1000) \<or> (\<exists>k. e = TimerFires k True))
   \<and> timers (mount False) = []
   \<and> (length (sockets w) < length (sockets (fire e' w)) \<longrightarrow>
        (\<exists>k. e' = TimerFires k False \<and> k < length (timers w) \<and> pending (timers w ! k)))
   \<and> stopped (run (mount False) ten_failed_attempts)
   \<and> (maxReconnectAttempts \<le> reconnectAttempts (run (mount throws) evs) \<longrightarrow>
        stopped (run (mount throws) evs))
   \<and> (stopped t \<longrightarrow>
        sockets (run t es) = sockets t \<and> reconnectAttempts (run t es) = reconnectAttempts t
        \<and> length (timers (run t es)) = length (timers t))
   \<and> (isMounted p \<and> k < length (sockets p) \<and> sockets p ! k = CONNECTING \<longrightarrow>
        reconnectAttempts (fire (OnOpen k) p) = 0)
   \<and> (q < length (sockets (run (mount th) tr)) \<and> sockets (run (mount th) tr) ! q = CONNECTING
        \<longrightarrow> reconnectAttempts (fire (OnOpen q) (run (mount th) tr)) = 0)"
proof (intro conjI impI)
  show "getReconnectDelay n = min (1000 * 2 ^ n) 30000"
    by (rule getReconnectDelay_eq)
  show "timers (fire (OnClose j 1000) u) = timers u"
    by (rule onclose_clean)
  show "reconnectAttempts (fire (OnClose j 1000) u) = reconnectAttempts u"
    by (rule onclose_clean)
  show "timers (mount False) = []"
    by (rule mount_timer_only_on_throw)
  show "stopped (run (mount False) ten_failed_attempts)"
    by (rule stopped_after_ten_failed_attempts)
next
  assume "isMounted s \<and> shouldReconnect s \<and> i < length (sockets s) \<and> sockets s ! i \<noteq> CLOSED
        \<and> code \<noteq> 1000 \<and> reconnectAttempts s < 10"
  then show "reconnectAttempts (fire (OnClose i code) s) = reconnectAttempts s + 1"
    and "timers (fire (OnClose i code) s) =
          timers s @ [\<lparr>callback = AfterClose,
                       delay = min (1000 * 2 ^ reconnectAttempts s) 30000, pending = True\<rparr>]"
    using onclose_unclean [of s i code] by blast+
next
  assume "isMounted c \<and> shouldReconnect c \<and> reconnectAttempts c + 1 < 10"
  then show "reconnectAttempts (connect True c) = reconnectAttempts c + 1"
    and "timers (connect True c) =
          timers c @ [\<lparr>callback = AfterThrow,
                       delay = min (1000 * 2 ^ reconnectAttempts c) 30000, pending = True\<rparr>]"
    using connect_throws [of c] by blast+
next
  assume "length (timers v) < length (timers (fire e v))"
  then show "(\<exists>i code. e = OnClose i code \<and> code \<noteq> 1000) \<or> (\<exists>k. e = TimerFires k True)"
    by (rule timers_grow_only)
next
  assume "length (sockets w) < length (sockets (fire e' w))"
  then show "\<exists>k. e' = TimerFires k False \<and> k < length (timers w) \<and> pending (timers w ! k)"
    by (rule sockets_grow_only)
next
  assume "maxReconnectAttempts \<le> reconnectAttempts (run (mount throws) evs)"
  then show "stopped (run (mount throws) evs)"
    by (rule reachable_stopped)
next
  assume "stopped t"
  then show "sockets (run t es) = sockets t" and "reconnectAttempts (run t es) = reconnectAttempts t"
    and "length (timers (run t es)) = length (timers t)"
    using run_stopped [of t es] by blast+
next
  assume "isMounted p \<and> k < length (sockets p) \<and> sockets p ! k = CONNECTING"
  then show "reconnectAttempts (fire (OnOpen k) p) = 0"
    using onopen_resets(1) [of p k] by blast
next
  assume "q < length (sockets (run (mount th) tr)) \<and> sockets (run (mount th) tr) ! q = CONNECTING"
  then show "reconnectAttempts (fire (OnOpen q) (run (mount th) tr)) = 0"
    using reachable_open_resets(1) [of q th tr] by blast
qed

theorem C10_reconnect_policy_witness:
  "reconnectAttempts (fire (OnClose 0 1006) (mount False)) = 1
   \<and> timers (fire (OnClose 0 1006) (mount False)) =
       [\<lparr>callback = AfterClose, delay = 1000, pending = True\<rparr>]
   \<and> reconnectAttempts (connect True initial) = 1
   \<and> timers (connect True initial) = [\<lparr>callback = AfterThrow, delay = 1000, pending = True\<rparr>]
   \<and> length (timers (mount False)) < length (timers (fire (OnClose 0 1006) (mount False)))
   \<and> length (sockets (mount True)) < length (sockets (fire (TimerFires 0 False) (mount True)))
   \<and> sockets (run (run (mount False) ten_failed_attempts) [TimerFires 9 False, TimerFires 9 True])
       = [CLOSED, CLOSED, CLOSED, CLOSED, CLOSED, CLOSED, CLOSED, CLOSED, CLOSED, CLOSED]
   \<and> reconnectAttempts
        (run (run (mount False) ten_failed_attempts) [TimerFires 9 False, TimerFires 9 True]) = 10
   \<and> maxReconnectAttempts \<le> reconnectAttempts (run (mount False) ten_failed_attempts)
   \<and> stopped (run (mount False) ten_failed_attempts)
   \<and> reconnectAttempts (fire (OnOpen 0) (mount False)) = 0
   \<and> reconnectAttempts (run (mount False) [OnClose 0 1006, TimerFires 0 False]) = 1
   \<and> reconnectAttempts
        (fire (OnOpen 1) (run (mount False) [OnClose 0 1006, TimerFires 0 False])) = 0"
proof -
  note T = C10_reconnect_policy [where s = "mount False" and i = 0 and code = 1006
      and c = initial and v = "mount False" and e = "OnClose 0 1006"
      and w = "mount True" and e' = "TimerFires 0 False"
      and t = "run (mount False) ten_failed_attempts"
      and es = "[TimerFires 9 False, TimerFires 9 True]"
      and p = "mount False" and k = 0
      and throws = False and evs = ten_failed_attempts
      and q = 1 and th = False and tr = "[OnClose 0 1006, TimerFires 0 False]"]
  have h1: "isMounted (mount False) \<and> shouldReconnect (mount False)
      \<and> 0 < length (sockets (mount False)) \<and> sockets (mount False) ! 0 \<noteq> CLOSED
      \<and> (1006::nat) \<noteq> 1000 \<and> reconnectAttempts (mount False) < 10"
    by (simp add: mount_False)
  have h2: "isMounted initial \<and> shouldReconnect initial \<and> reconnectAttempts initial + 1 < 10"
    by (simp add: initial_def)
  have h3: "length (timers (mount False)) < length (timers (fire (OnClose 0 1006) (mount False)))"
    by (simp add: mount_False onclose_def setTimeout_def Let_def maxReconnectAttempts_def)
  have h4: "length (sockets (mount True)) < length (sockets (fire (TimerFires 0 False) (mount True)))"
    by (simp add: mount_True clearTimeout_def connect_def maxReconnectAttempts_def)
  have h5: "stopped (run (mount False) ten_failed_attempts)"
    by (rule stopped_after_ten_failed_attempts)
  have h6: "isMounted (mount False) \<and> 0 < length (sockets (mount False))
      \<and> sockets (mount False) ! 0 = CONNECTING"
    by (simp add: mount_False)
  have r: "reconnectAttempts (mount False) = 0" "timers (mount False) = []"
    "reconnectAttempts initial = 0" "timers initial = []"
    by (simp_all add: mount_False initial_def)
  have r': "sockets (run (mount False) ten_failed_attempts) =
       [CLOSED, CLOSED, CLOSED, CLOSED, CLOSED, CLOSED, CLOSED, CLOSED, CLOSED, CLOSED]"
    "reconnectAttempts (run (mount False) ten_failed_attempts) = 10"
    by (simp_all add: run_ten_failed_attempts)
  have h7: "maxReconnectAttempts \<le> reconnectAttempts (run (mount False) ten_failed_attempts)"
    by (simp add: run_ten_failed_attempts maxReconnectAttempts_def)
  have one_retry: "run (mount False) [OnClose 0 1006, TimerFires 0 False] =
      \<lparr>isMounted = True, shouldReconnect = True, isConnected = False,
        reconnectAttempts = 1, wsRef = Some 1, reconnectTimeoutRef = Some 0,
        sockets = [CLOSED, CONNECTING],
        timers = [\<lparr>callback = AfterClose, delay = 1000, pending = False\<rparr>]\<rparr>"
    by (simp add: run_def mount_False onclose_def setTimeout_def clearTimeout_def connect_def
        is_closed_def Let_def maxReconnectAttempts_def getReconnectDelay_eq)
  have h8: "1 < length (sockets (run (mount False) [OnClose 0 1006, TimerFires 0 False]))
      \<and> sockets (run (mount False) [OnClose 0 1006, TimerFires 0 False]) ! 1 = CONNECTING"
    "reconnectAttempts (run (mount False) [OnClose 0 1006, TimerFires 0 False]) = 1"
    by (simp_all add: one_retry)
  from T h8 have h9: "reconnectAttempts
        (fire (OnOpen 1) (run (mount False) [OnClose 0 1006, TimerFires 0 False])) = 0"
    by blast
  from T h1 h2 h5 h6 h7 have
    "reconnectAttempts (fire (OnClose 0 1006) (mount False)) = reconnectAttempts (mount False) + 1"
    "timers (fire (OnClose 0 1006) (mount False)) =
       timers (mount False) @ [\<lparr>callback = AfterClose,
         delay = min (1000 * 2 ^ reconnectAttempts (mount False)) 30000, pending = True\<rparr>]"
    "reconnectAttempts (connect True initial) = reconnectAttempts initial + 1"
    "timers (connect True initial) =
       timers initial @ [\<lparr>callback = AfterThrow,
         delay = min (1000 * 2 ^ reconnectAttempts initial) 30000, pending = True\<rparr>]"
    "sockets (run (run (mount False) ten_failed_attempts) [TimerFires 9 False, TimerFires 9 True])
       = sockets (run (mount False) ten_failed_attempts)"
    "reconnectAttempts
        (run (run (mount False) ten_failed_attempts) [TimerFires 9 False, TimerFires 9 True])
       = reconnectAttempts (run (mount False) ten_failed_attempts)"
    "reconnectAttempts (fire (OnOpen 0) (mount False)) = 0"
    by blast+
  with h3 h4 h5 h7 h8(2) h9 show ?thesis by (simp only: r r') simp
qed

section \<open>Properties of the statistics and of the backtest\<close>

lemma last_trailing: "0 < n \<Longrightarrow> n \<le> length series \<Longrightarrow> last (trailing n series) = last series"
  by (simp add: trailing_def)

lemma StatsWidget_null_change_pct:
  "StatsWidget (stats\<lparr>ps_change_pct := None\<rparr>) = (StatsWidget stats)\<lparr>w_changePct := 0\<rparr>"
  by (simp add: StatsWidget_def nullish_or_def)

lemma compute_ok:
  assumes "1 \<le> window" "nat window \<le> length series"
  shows "compute series window =
     Inr \<lparr>rs_mean = mean_of (trailing (nat window) series),
          rs_std = std_of (trailing (nat window) series),
          rs_min = Min (set (trailing (nat window) series)),
          rs_max = Max (set (trailing (nat window) series)),
          rs_median = median_of (trailing (nat window) series),
          rs_current = last series,
          rs_change = last series - hd (trailing (nat window) series),
          rs_change_pct = reported (ratio (last series - hd (trailing (nat window) series))
                                          (hd (trailing (nat window) series)))\<rparr>"
  using assms by (simp add: compute_def Let_def last_trailing)

text \<open>
  C5. For every window whose first value is zero, \<open>compute\<close> does not fail:
  it returns a result whose \<open>change_pct\<close> is null and whose other fields are
  the statistics of the window, with \<open>current\<close> the last value and \<open>change\<close>
  equal to it. The client then receives a null \<open>change_pct\<close> and the widget
  shows it as 0 next to the other fields, unchanged.
\<close>

theorem C5_change_pct_null:
  assumes "1 \<le> window" and "nat window \<le> length series"
    and "hd (trailing (nat window) series) = 0"
  shows "\<exists>r. compute series window = Inr r
           \<and> rs_change_pct r = None
           \<and> rs_mean r = mean_of (trailing (nat window) series)
           \<and> rs_std r = std_of (trailing (nat window) series)
           \<and> rs_min r = Min (set (trailing (nat window) series))
           \<and> rs_max r = Max (set (trailing (nat window) series))
           \<and> rs_median r = median_of (trailing (nat window) series)
           \<and> rs_current r = last series
           \<and> rs_change r = last series
           \<and> ps_change_pct (to_PriceStats r) = None
           \<and> StatsWidget (to_PriceStats r) =
               \<lparr>w_current = rs_current r, w_change = rs_change r, w_changePct = 0,
                w_mean = rs_mean r, w_std = rs_std r, w_min = rs_min r, w_max = rs_max r,
                w_median = rs_median r\<rparr>"
  using assms
  by (simp add: compute_ok ratio_def reported_def to_PriceStats_def StatsWidget_def nullish_or_def)

theorem C5_change_pct_null_witness:
  "compute [7, 0, 4] 2 =
     Inr \<lparr>rs_mean = 2, rs_std = 2, rs_min = 0, rs_max = 4, rs_median = 2, rs_current = 4,
          rs_change = 4, rs_change_pct = None\<rparr>
   \<and> (\<exists>r. compute [7, 0, 4] 2 = Inr r \<and> rs_change_pct r = None \<and> rs_current r = 4
          \<and> w_changePct (StatsWidget (to_PriceStats r)) = 0
          \<and> w_current (StatsWidget (to_PriceStats r)) = 4)"
proof -
  have t: "trailing 2 [7, 0, 4] = [0, 4 :: real]"
    by (simp add: trailing_def)
  have h: "(1::int) \<le> 2" "nat 2 \<le> length [7, 0, 4 :: real]" "hd (trailing (nat 2) [7, 0, 4]) = (0::real)"
    by (simp_all add: trailing_def)
  from C5_change_pct_null [OF h] obtain r where
    r: "compute [7, 0, 4] 2 = Inr r" "rs_change_pct r = None" "rs_current r = last [7, 0, 4]"
       "StatsWidget (to_PriceStats r) =
               \<lparr>w_current = rs_current r, w_change = rs_change r, w_changePct = 0,
                w_mean = rs_mean r, w_std = rs_std r, w_min = rs_min r, w_max = rs_max r,
                w_median = rs_median r\<rparr>"
    by blast
  have m: "mean_of [0, 4] = 2" by (simp add: mean_of_def)
  have v: "std_of [0, 4] = 2" by (simp add: std_of_def variance_of_def m)
  have md: "median_of [0, 4] = 2" by (simp add: median_of_def)
  have "compute [7, 0, 4] 2 =
     Inr \<lparr>rs_mean = 2, rs_std = 2, rs_min = 0, rs_max = 4, rs_median = 2, rs_current = 4,
          rs_change = 4, rs_change_pct = None\<rparr>"
    by (simp add: compute_def Let_def t m v md ratio_def reported_def)
  with r show ?thesis by simp
qed

text \<open>
  C4. On the z-score series \<open>[0, 2.5, 2.5, 0.1, -2.5, 0]\<close> with entry
  threshold 2.0 and exit threshold 0.2 the backtest produces exactly two
  trades: a short entered at index 1 and exited at index 3, and a long
  entered at index 4 and exited at index 5.
\<close>

theorem C4_backtest_example:
  "br_trades (runBacktest 2.0 0.2 (example_series s0 s1 s2 s3 s4 s5)) =
     [\<lparr>tr_side = Short, tr_entry_time = 1, tr_exit_time = 3, tr_entry_z = 2.5, tr_exit_z = 0.1,
        tr_pnl = s1 - s3\<rparr>,
      \<lparr>tr_side = Long, tr_entry_time = 4, tr_exit_time = 5, tr_entry_z = - 2.5, tr_exit_z = 0,
        tr_pnl = s5 - s4\<rparr>]
   \<and> br_total_trades (runBacktest 2.0 0.2 (example_series s0 s1 s2 s3 s4 s5)) = 2"
  by (simp add: runBacktest_def example_series_def Let_def)

end
